theory Spec2Isabelle
  imports Main "HOL-Library.Signed_Division"
begin

section \<open>Iteration domains, tensor views and scalar expressions\<close>

text \<open>
  Modelled from the spec: the parallel-type tags of an IterDomain (type.h is not part of
  the sources at hand). The spec lists Serial, BIDx/y/z, TIDx/y/z, Vectorize, Unroll,
  Unswitch and Mma.
\<close>

datatype ParallelType =
  BIDz | BIDy | BIDx | TIDz | TIDy | TIDx | Vectorize | Unroll | Unswitch | Mma | Serial

text \<open>
  Modelled from the spec: a "thread dimension" is one of TIDx/y/z, a "block/grid
  dimension" one of BIDx/y/z, and an axis is thread-mapped when it is either.
\<close>

fun isParallelTypeThreadDim :: "ParallelType \<Rightarrow> bool" where
  "isParallelTypeThreadDim TIDx = True"
| "isParallelTypeThreadDim TIDy = True"
| "isParallelTypeThreadDim TIDz = True"
| "isParallelTypeThreadDim _ = False"

fun isParallelTypeBlockDim :: "ParallelType \<Rightarrow> bool" where
  "isParallelTypeBlockDim BIDx = True"
| "isParallelTypeBlockDim BIDy = True"
| "isParallelTypeBlockDim BIDz = True"
| "isParallelTypeBlockDim _ = False"

definition isParallelTypeThread :: "ParallelType \<Rightarrow> bool" where
  "isParallelTypeThread pt = (isParallelTypeBlockDim pt \<or> isParallelTypeThreadDim pt)"

text \<open>
  Modelled from the spec: the parallel types that the buffer sizes range over
  (\<open>kParallelTypeThreads\<close> and \<open>kParallelTypeBIDs\<close> of type.h): every block and thread
  dimension for the work buffer, the block-identifier (BID) dimensions only for the sync
  buffer.
\<close>

definition kParallelTypeThreads :: "ParallelType list" where
  "kParallelTypeThreads = [BIDx, BIDy, BIDz, TIDx, TIDy, TIDz]"

definition kParallelTypeBIDs :: "ParallelType list" where
  "kParallelTypeBIDs = [BIDx, BIDy, BIDz]"

text \<open>
  Scalar values of the kernel IR (extents, loop indices, buffer sizes) are symbolic
  integer expressions: a constant, a named runtime scalar, or an arithmetic node.
\<close>

datatype sval =
  IntConst int
| NamedScalar string
| Mul sval sval
| Add sval sval
| CeilDiv sval sval

text \<open>\<open>Val::isOneInt\<close>: the value is the integer constant one.\<close>

fun isOneInt :: "sval \<Rightarrow> bool" where
  "isOneInt (IntConst k) = (k = 1)"
| "isOneInt _ = False"

text \<open>
  Modelled from the spec: \<open>ceilDiv\<close> (utils.h is not part of the sources at hand) is the
  rounded-up quotient \<open>(a + b - 1) / b\<close> of C++ integers; \<open>sdiv\<close> is the
  truncating division of C++.
\<close>

definition ceilDiv :: "int \<Rightarrow> int \<Rightarrow> int" where
  "ceilDiv a b = (a + b - 1) sdiv b"

text \<open>The value of a scalar expression once the runtime scalars are bound.\<close>

fun eval :: "(string \<Rightarrow> int) \<Rightarrow> sval \<Rightarrow> int" where
  "eval env (IntConst k) = k"
| "eval env (NamedScalar x) = env x"
| "eval env (Mul a b) = eval env a * eval env b"
| "eval env (Add a b) = eval env a + eval env b"
| "eval env (CeilDiv a b) = ceilDiv (eval env a) (eval env b)"

text \<open>
  Modelled from the spec: \<open>SimplifyingIrBuilder::mulExpr\<close> and \<open>addExpr\<close>
  (ir_builder.cpp is not part of the sources at hand). The spec describes the buffer
  sizes as products; the builders are modelled as the plain product and sum nodes, and
  the statements below speak about the value of the built expression.
\<close>

definition mulExpr :: "sval \<Rightarrow> sval \<Rightarrow> sval" where
  "mulExpr a b = Mul a b"

definition addExpr :: "sval \<Rightarrow> sval \<Rightarrow> sval" where
  "addExpr a b = Add a b"

definition oneVal :: sval where
  "oneVal = IntConst 1"

definition zeroVal :: sval where
  "zeroVal = IntConst 0"

record iter_domain =
  id_extent :: sval
  id_ptype :: ParallelType
  id_reduction :: bool
  id_broadcast :: bool

definition isThread :: "iter_domain \<Rightarrow> bool" where
  "isThread d = isParallelTypeThread (id_ptype d)"

datatype DataType = DT_Double | DT_Float | DT_Half | DT_Int | DT_Bool

datatype transform = Split nat sval | Merge nat nat

record tensorview =
  tv_name :: nat
  tv_dtype :: DataType
  tv_root :: "iter_domain list"
  tv_transforms :: "transform list"
  tv_domain :: "iter_domain list"

text \<open>
  Modelled from the spec: an output domain has a block reduction when some axis is a
  reduction mapped to a thread dimension, and a grid reduction when some axis is a
  reduction mapped to a block/grid dimension.
\<close>

definition hasBlockReduction :: "iter_domain list \<Rightarrow> bool" where
  "hasBlockReduction td =
     list_ex (\<lambda>d. id_reduction d \<and> isParallelTypeThreadDim (id_ptype d)) td"

definition hasGridReduction :: "iter_domain list \<Rightarrow> bool" where
  "hasGridReduction td =
     list_ex (\<lambda>d. id_reduction d \<and> isParallelTypeBlockDim (id_ptype d)) td"

record for_loop_hdr =
  fl_iter_domain :: iter_domain
  fl_index :: sval
  fl_trivial :: bool

text \<open>
  The part of the lowering context (\<open>GpuLower::current()\<close>) that index lowering reads:
  the parallel dimension map (\<open>None\<close> is the null pointer), the thread predicate map,
  the loop mapping of the compute-at map and \<open>isTrivialIterDomain\<close>.
\<close>

record lower_ctx =
  parallelDimensionMap :: "ParallelType \<Rightarrow> sval option"
  getPredicatedParallelTypes :: "tensorview \<Rightarrow> ParallelType list"
  getParallelBroadcastDomains :: "tensorview \<Rightarrow> ParallelType \<Rightarrow> bool"
  areMapped :: "iter_domain \<Rightarrow> iter_domain \<Rightarrow> bool"
  isTrivialIterDomain :: "iter_domain \<Rightarrow> bool"

datatype error =
  DstNotTensorView
| BackEmptyScope
| InsertAtTopLevelEmpty
| NoVectorDimIndex
| InvalidExpansionFactor
| NotTvOp
| NotATensorView
| NoGridReduction
| SerialAndGridReduction
| GroupingMismatch
| SizeInferenceError
| BadIterator
| DivisionByZero
| NoReferenceTensor
| BreakPointWithoutElements
| BlockAndGridY

section \<open>Buffer sizes for grid communication\<close>

text \<open>The two loops of \<open>getGridCommWorkBufferSize\<close>, over the parallel types and over
  the enclosing for-loops.\<close>

definition work_pt_step :: "lower_ctx \<Rightarrow> iter_domain list \<Rightarrow> ParallelType \<Rightarrow> sval \<Rightarrow> sval" where
  "work_pt_step ctx td pt buffer_size =
     (case parallelDimensionMap ctx pt of
        None \<Rightarrow> buffer_size
      | Some pt_dim \<Rightarrow>
          if isOneInt pt_dim then buffer_size
          else if isParallelTypeThreadDim pt \<and>
                  list_ex (\<lambda>out_id. id_ptype out_id = pt \<and>
                                    (id_reduction out_id \<or> id_broadcast out_id)) td
          then buffer_size
          else mulExpr buffer_size pt_dim)"

definition loop_step :: "for_loop_hdr \<Rightarrow> sval \<Rightarrow> sval" where
  "loop_step fl buffer_size =
     (if fl_trivial fl then buffer_size
      else if isThread (fl_iter_domain fl) then buffer_size
      else mulExpr buffer_size (id_extent (fl_iter_domain fl)))"

definition getGridCommWorkBufferSize ::
  "lower_ctx \<Rightarrow> iter_domain list \<Rightarrow> for_loop_hdr list \<Rightarrow> int \<Rightarrow> error + sval" where
  "getGridCommWorkBufferSize ctx td for_loops expansion_factor =
     (if \<not> expansion_factor \<ge> 1 then Inl InvalidExpansionFactor
      else
        let buffer_size = (if expansion_factor = 1 then oneVal else IntConst expansion_factor);
            buffer_size = fold (work_pt_step ctx td) kParallelTypeThreads buffer_size;
            buffer_size = fold loop_step for_loops buffer_size
        in Inr buffer_size)"

definition sync_pt_step :: "lower_ctx \<Rightarrow> iter_domain list \<Rightarrow> ParallelType \<Rightarrow> sval \<Rightarrow> sval" where
  "sync_pt_step ctx td pt buffer_size =
     (case parallelDimensionMap ctx pt of
        None \<Rightarrow> buffer_size
      | Some pt_dim \<Rightarrow>
          if isOneInt pt_dim then buffer_size
          else if list_ex (\<lambda>out_id. id_ptype out_id = pt \<and>
                                    (id_reduction out_id \<or> id_broadcast out_id)) td
          then buffer_size
          else mulExpr buffer_size pt_dim)"

definition getGridSyncBufferSize ::
  "lower_ctx \<Rightarrow> iter_domain list \<Rightarrow> for_loop_hdr list \<Rightarrow> sval" where
  "getGridSyncBufferSize ctx td for_loops =
     (let buffer_size = oneVal;
          buffer_size = fold (sync_pt_step ctx td) kParallelTypeBIDs buffer_size;
          buffer_size = fold loop_step for_loops buffer_size
      in buffer_size)"

definition getEntranceCountGridReduce :: "for_loop_hdr list \<Rightarrow> sval" where
  "getEntranceCountGridReduce for_loops = fold loop_step for_loops oneVal"

definition lin_step :: "for_loop_hdr \<Rightarrow> sval \<Rightarrow> sval" where
  "lin_step loop linear_index =
     (if fl_trivial loop then linear_index
      else if isThread (fl_iter_domain loop) then linear_index
      else addExpr (mulExpr linear_index (id_extent (fl_iter_domain loop))) (fl_index loop))"

definition getEntranceLinIndGridReduce :: "for_loop_hdr list \<Rightarrow> sval" where
  "getEntranceLinIndGridReduce for_loops = fold lin_step for_loops zeroVal"

section \<open>Expressions of the kernel IR\<close>

text \<open>
  Modelled from the spec: \<open>Index::getProducerIndex\<close> and \<open>Index::getConsumerIndex\<close>
  (index_compute.cpp is not part of the sources at hand) replace a tensor view by an
  indexed reference that is a function of the tensor, of the consumer it is read for and
  of the current loop nest. A \<open>TensorIndex\<close> records exactly these arguments.
\<close>

datatype tensor_index = TensorIndex tensorview "tensorview option" "for_loop_hdr list"

fun view :: "tensor_index \<Rightarrow> tensorview" where
  "view (TensorIndex tv c ls) = tv"

datatype val = Scalar DataType sval | TensorViewV tensorview | TensorIndexV tensor_index

fun val_dtype :: "val \<Rightarrow> DataType" where
  "val_dtype (Scalar dt v) = dt"
| "val_dtype (TensorViewV tv) = tv_dtype tv"
| "val_dtype (TensorIndexV ti) = tv_dtype (view ti)"

fun isScalar :: "val \<Rightarrow> bool" where
  "isScalar (Scalar dt v) = True"
| "isScalar _ = False"

text \<open>
  Modelled from the spec: \<open>ir_utils::isTvOp\<close> (ir_utils.cpp is not part of the sources
  at hand). The outputs of an Expr are tensors or scalars; a tensor operation is one
  whose output is a tensor (a view or an indexed tensor).
\<close>

fun isTV :: "val \<Rightarrow> bool" where
  "isTV (Scalar dt v) = False"
| "isTV _ = True"

datatype predicate = Pred nat | TruePredicate

text \<open>
  Modelled from the spec: \<open>ir_utils::allocGlobalBufferForGridComm\<close> creates the Allocate
  node of a global-memory scratch buffer from its size, element type and whether it is
  zero-initialised.
\<close>

record allocate =
  alloc_size :: sval
  alloc_dtype :: DataType
  alloc_zero_init :: bool

definition allocGlobalBufferForGridComm :: "sval \<Rightarrow> DataType \<Rightarrow> bool \<Rightarrow> allocate" where
  "allocGlobalBufferForGridComm sz dt zero_init =
     \<lparr>alloc_size = sz, alloc_dtype = dt, alloc_zero_init = zero_init\<rparr>"

record reduction_op =
  rop_type :: string
  rop_init :: val
  rop_out :: val
  rop_in :: val
  rop_allreduce :: bool
  rop_predicate :: "predicate option"
  rop_write_predicate :: "predicate option"

record grid_reduction =
  gr_type :: string
  gr_init :: val
  gr_out :: val
  gr_in :: val
  gr_reduction_buffer :: allocate
  gr_sync_buffer :: allocate
  gr_entrance_index :: sval
  gr_entrances :: sval
  gr_allreduce :: bool
  gr_thread_predicate :: "ParallelType list"
  gr_predicate :: "predicate option"
  gr_write_predicate :: "predicate option"

record grouped_reduction_op =
  g_types :: "string list"
  g_inits :: "val list"
  g_outputs :: "val list"
  g_inputs :: "val list"
  g_allreduce :: bool
  g_predicate :: "predicate option"
  g_write_predicate :: "predicate option"

record grouped_grid_reduction =
  gg_types :: "string list"
  gg_inits :: "val list"
  gg_outputs :: "val list"
  gg_inputs :: "val list"
  gg_reduction_buffers :: "allocate list"
  gg_sync_buffer :: allocate
  gg_allreduce :: bool
  gg_thread_predicate :: "ParallelType list"
  gg_predicate :: "predicate option"
  gg_write_predicate :: "predicate option"

record welford_op =
  w_out_avg :: val
  w_out_var :: val
  w_out_N :: val
  w_init_avg :: val
  w_init_var :: val
  w_init_N :: val
  w_in_avg :: val
  w_in_var :: "val option"
  w_in_N :: val
  w_allreduce :: bool
  w_predicate :: "predicate option"
  w_write_predicate :: "predicate option"

record grid_welford =
  gw_welford_op :: welford_op
  gw_var_buffer :: allocate
  gw_avg_buffer :: allocate
  gw_N_buffer :: allocate
  gw_sync_buffer :: allocate
  gw_entrance_index :: sval
  gw_entrances :: sval
  gw_thread_predicate :: "ParallelType list"
  gw_predicate :: "predicate option"
  gw_write_predicate :: "predicate option"

record broadcast_op =
  b_out :: val
  b_in :: val
  b_flags :: "bool list"
  b_predicate :: "predicate option"

record grid_broadcast =
  gb_broadcast_op :: broadcast_op
  gb_broadcast_buffer :: allocate
  gb_sync_buffer :: allocate
  gb_predicate :: "predicate option"

datatype expr =
  UnaryOp string val val
| BinaryOp string val val val
| TernaryOp string val val val val
| ViewAsScalar val val iter_domain "sval option"
| ReductionOp reduction_op
| GroupedReductionOp grouped_reduction_op
| WelfordOp welford_op
| MmaOp val val val val string
| BroadcastOp broadcast_op
| Allocate allocate
| BlockSync bool
| GridSync "ParallelType list"
| ForLoop for_loop_hdr "expr list"
| IfThenElse predicate "expr list" "expr list"
| GridReduction grid_reduction
| GroupedGridReduction grouped_grid_reduction
| GridWelford grid_welford
| GridBroadcast grid_broadcast
| AllocateFusedReduction expr

section \<open>The state of index lowering\<close>

text \<open>
  \<open>active_scope_\<close> points at the body of a loop or branch that is the last expression
  of its parent scope while it is open. It is modelled as the path that leads from the
  top-level list to that body, through the last expression of each scope on the way;
  the empty path is the null pointer.
\<close>

datatype scope_sel = ForBody | ThenBody | ElseBody

record lowering =
  lowered_exprs :: "expr list"
  for_loops :: "for_loop_hdr list"
  active_scope :: "scope_sel list"

fun scope_body :: "scope_sel \<Rightarrow> expr \<Rightarrow> expr list option" where
  "scope_body ForBody (ForLoop h b) = Some b"
| "scope_body ThenBody (IfThenElse c t e) = Some t"
| "scope_body ElseBody (IfThenElse c t e) = Some e"
| "scope_body s x = None"

fun scope_exprs :: "scope_sel list \<Rightarrow> expr list \<Rightarrow> expr list option" where
  "scope_exprs [] xs = Some xs"
| "scope_exprs (s # p) xs =
     (if xs = [] then None
      else case scope_body s (last xs) of
             None \<Rightarrow> None
           | Some b \<Rightarrow> scope_exprs p b)"

fun scope_map :: "scope_sel \<Rightarrow> (expr list \<Rightarrow> expr list) \<Rightarrow> expr \<Rightarrow> expr" where
  "scope_map ForBody f (ForLoop h b) = ForLoop h (f b)"
| "scope_map ThenBody f (IfThenElse c t e) = IfThenElse c (f t) e"
| "scope_map ElseBody f (IfThenElse c t e) = IfThenElse c t (f e)"
| "scope_map s f x = x"

fun scope_push :: "scope_sel list \<Rightarrow> expr \<Rightarrow> expr list \<Rightarrow> expr list" where
  "scope_push [] e xs = xs @ [e]"
| "scope_push (s # p) e xs =
     (if xs = [] then xs
      else butlast xs @ [scope_map s (scope_push p e) (last xs)])"

definition pushBack :: "expr \<Rightarrow> lowering \<Rightarrow> lowering" where
  "pushBack e st = st\<lparr>lowered_exprs := scope_push (active_scope st) e (lowered_exprs st)\<rparr>"

text \<open>\<open>IndexLowering::back\<close>.\<close>

definition scope_back :: "lowering \<Rightarrow> error + expr" where
  "scope_back st =
     (case scope_exprs (active_scope st) (lowered_exprs st) of
        None \<Rightarrow> Inl BackEmptyScope
      | Some xs \<Rightarrow> if xs = [] then Inl BackEmptyScope else Inr (last xs))"

definition insertAtTopLevel :: "expr \<Rightarrow> lowering \<Rightarrow> error + lowering" where
  "insertAtTopLevel e st =
     (if lowered_exprs st = [] then Inl InsertAtTopLevelEmpty
      else Inr (st\<lparr>lowered_exprs :=
                  butlast (lowered_exprs st) @ [e, last (lowered_exprs st)]\<rparr>))"

text \<open>
  \<open>GpuLower::propagateExprInfo(old, back())\<close> updates side tables of the lowering
  context that index lowering never reads; what remains of the call is the assertion of
  \<open>back()\<close>.
\<close>

definition propagateExprInfo :: "expr \<Rightarrow> lowering \<Rightarrow> error + lowering" where
  "propagateExprInfo old st = (case scope_back st of Inl e \<Rightarrow> Inl e | Inr new \<Rightarrow> Inr st)"

text \<open>The expressions of the scope that \<open>active_scope_\<close> points at.\<close>

definition active_exprs :: "lowering \<Rightarrow> expr list option" where
  "active_exprs st = scope_exprs (active_scope st) (lowered_exprs st)"

definition lowerSrcIndex :: "val \<Rightarrow> val \<Rightarrow> lowering \<Rightarrow> error + val" where
  "lowerSrcIndex src dst st =
     (case src of
        TensorViewV tv \<Rightarrow>
          (case dst of
             TensorViewV d \<Rightarrow> Inr (TensorIndexV (TensorIndex tv (Some d) (for_loops st)))
           | _ \<Rightarrow> Inl DstNotTensorView)
      | _ \<Rightarrow> Inr src)"

definition lowerDstIndex :: "val \<Rightarrow> lowering \<Rightarrow> val" where
  "lowerDstIndex dst st =
     (case dst of
        TensorViewV tv \<Rightarrow> TensorIndexV (TensorIndex tv None (for_loops st))
      | _ \<Rightarrow> dst)"

section \<open>Lowering of the single expressions\<close>

definition handleUnaryOp :: "string \<Rightarrow> val \<Rightarrow> val \<Rightarrow> lowering \<Rightarrow> error + lowering" where
  "handleUnaryOp ty out inp st =
     (case lowerSrcIndex inp out st of
        Inl e \<Rightarrow> Inl e
      | Inr i \<Rightarrow>
          let out' = lowerDstIndex out st
          in propagateExprInfo (UnaryOp ty out inp) (pushBack (UnaryOp ty out' i) st))"

definition handleBinaryOp ::
  "string \<Rightarrow> val \<Rightarrow> val \<Rightarrow> val \<Rightarrow> lowering \<Rightarrow> error + lowering" where
  "handleBinaryOp ty out lhs rhs st =
     (case lowerSrcIndex lhs out st of
        Inl e \<Rightarrow> Inl e
      | Inr l \<Rightarrow>
          (case lowerSrcIndex rhs out st of
             Inl e \<Rightarrow> Inl e
           | Inr r \<Rightarrow>
               let out' = lowerDstIndex out st
               in propagateExprInfo (BinaryOp ty out lhs rhs)
                    (pushBack (BinaryOp ty out' l r) st)))"

definition handleTernaryOp ::
  "string \<Rightarrow> val \<Rightarrow> val \<Rightarrow> val \<Rightarrow> val \<Rightarrow> lowering \<Rightarrow> error + lowering" where
  "handleTernaryOp ty out in1 in2 in3 st =
     (case lowerSrcIndex in1 out st of
        Inl e \<Rightarrow> Inl e
      | Inr i1 \<Rightarrow>
          (case lowerSrcIndex in2 out st of
             Inl e \<Rightarrow> Inl e
           | Inr i2 \<Rightarrow>
               (case lowerSrcIndex in3 out st of
                  Inl e \<Rightarrow> Inl e
                | Inr i3 \<Rightarrow>
                    let out' = lowerDstIndex out st
                    in propagateExprInfo (TernaryOp ty out in1 in2 in3)
                         (pushBack (TernaryOp ty out' i1 i2 i3) st))))"

definition handleViewAsScalar ::
  "lower_ctx \<Rightarrow> val \<Rightarrow> val \<Rightarrow> iter_domain \<Rightarrow> sval option \<Rightarrow> lowering \<Rightarrow> error + lowering" where
  "handleViewAsScalar ctx out inp vector_id idx st =
     (case lowerSrcIndex inp out st of
        Inl e \<Rightarrow> Inl e
      | Inr i \<Rightarrow>
          let out' = lowerDstIndex out st
          in case find (\<lambda>loop. areMapped ctx (fl_iter_domain loop) vector_id) (for_loops st) of
               Some loop \<Rightarrow>
                 propagateExprInfo (ViewAsScalar out inp vector_id idx)
                   (pushBack (ViewAsScalar out' i vector_id (Some (fl_index loop))) st)
             | None \<Rightarrow> Inl NoVectorDimIndex)"

definition handleMmaOp ::
  "val \<Rightarrow> val \<Rightarrow> val \<Rightarrow> val \<Rightarrow> string \<Rightarrow> lowering \<Rightarrow> error + lowering" where
  "handleMmaOp out inA inB init opts st =
     (case lowerSrcIndex inA out st of
        Inl e \<Rightarrow> Inl e
      | Inr a \<Rightarrow>
          (case lowerSrcIndex inB out st of
             Inl e \<Rightarrow> Inl e
           | Inr b \<Rightarrow>
               let out' = lowerDstIndex out st
               in propagateExprInfo (MmaOp out inA inB init opts)
                    (pushBack (MmaOp out' a b init opts) st)))"

subsection \<open>ReductionOp\<close>

definition handleBlockReduction ::
  "reduction_op \<Rightarrow> val \<Rightarrow> val \<Rightarrow> lowering \<Rightarrow> error + lowering" where
  "handleBlockReduction rop out inp st =
     (if \<not> isTV (rop_out rop) then Inl NotTvOp
      else
        let indexed_rop = \<lparr>rop_type = rop_type rop, rop_init = rop_init rop, rop_out = out,
                             rop_in = inp, rop_allreduce = rop_allreduce rop,
                             rop_predicate = None, rop_write_predicate = None\<rparr>;
            indexed_rop = (case rop_predicate rop of
                             Some p \<Rightarrow> indexed_rop\<lparr>rop_predicate := Some p\<rparr>
                           | None \<Rightarrow> indexed_rop);
            indexed_rop = (case rop_write_predicate rop of
                             Some p \<Rightarrow> indexed_rop\<lparr>rop_write_predicate := Some p\<rparr>
                           | None \<Rightarrow> indexed_rop)
        in propagateExprInfo (ReductionOp rop) (pushBack (ReductionOp indexed_rop) st))"

text \<open>The reduction axes that the assertion of a grid welford rejects
  (\<open>non_thread_reduction_axis\<close>), and those that the assertion of the grid reduction of a
  ReductionOp or GroupedReductionOp rejects (\<open>serial_reduction_axis\<close>).\<close>

definition non_thread_reduction_axis :: "iter_domain \<Rightarrow> bool" where
  "non_thread_reduction_axis d = (\<not> isThread d \<and> id_reduction d)"

definition serial_reduction_axis :: "iter_domain \<Rightarrow> bool" where
  "serial_reduction_axis d = (\<not> isThread d \<and> id_reduction d \<and> \<not> isOneInt (id_extent d))"

definition handleGridReduction ::
  "lower_ctx \<Rightarrow> reduction_op \<Rightarrow> val \<Rightarrow> val \<Rightarrow> lowering \<Rightarrow> error + lowering" where
  "handleGridReduction ctx rop out inp st =
     (case out of
        TensorIndexV ti \<Rightarrow>
          let out_tv = view ti;
              out_domain = tv_domain out_tv
          in
          if \<not> hasGridReduction out_domain then Inl NoGridReduction
          else if list_ex serial_reduction_axis out_domain then Inl SerialAndGridReduction
          else
            let is_within_a_loop = list_ex (\<lambda>d. \<not> isTrivialIterDomain ctx d) out_domain;
                privatize_buffer = (\<not> rop_allreduce rop)
            in
            (case getGridCommWorkBufferSize ctx out_domain
                    (if privatize_buffer then for_loops st else [])
                    (if rop_allreduce rop \<and> is_within_a_loop then 2 else 1) of
               Inl e \<Rightarrow> Inl e
             | Inr work_size \<Rightarrow>
                 let reduce_buffer = allocGlobalBufferForGridComm work_size (val_dtype out) False;
                     sync_buffer = allocGlobalBufferForGridComm
                        (getGridSyncBufferSize ctx out_domain
                           (if privatize_buffer then for_loops st else []))
                        DT_Int True;
                     entrance_ind = (if privatize_buffer
                                     then getEntranceLinIndGridReduce (for_loops st)
                                     else zeroVal);
                     n_entrances = (if privatize_buffer
                                    then getEntranceCountGridReduce (for_loops st)
                                    else oneVal);
                     thread_pred = getPredicatedParallelTypes ctx out_tv;
                     grid_reduction =
                       \<lparr>gr_type = rop_type rop, gr_init = rop_init rop, gr_out = out,
                        gr_in = inp, gr_reduction_buffer = reduce_buffer,
                        gr_sync_buffer = sync_buffer, gr_entrance_index = entrance_ind,
                        gr_entrances = n_entrances, gr_allreduce = rop_allreduce rop,
                        gr_thread_predicate = [], gr_predicate = None,
                        gr_write_predicate = None\<rparr>;
                     grid_reduction = grid_reduction\<lparr>gr_thread_predicate := thread_pred\<rparr>;
                     grid_reduction = (case rop_predicate rop of
                                         Some p \<Rightarrow> grid_reduction\<lparr>gr_predicate := Some p\<rparr>
                                       | None \<Rightarrow> grid_reduction);
                     grid_reduction = (case rop_write_predicate rop of
                                         Some p \<Rightarrow> grid_reduction\<lparr>gr_write_predicate := Some p\<rparr>
                                       | None \<Rightarrow> grid_reduction);
                     st = pushBack (Allocate reduce_buffer) st;
                     st = pushBack (Allocate sync_buffer) st;
                     st = pushBack (GridReduction grid_reduction) st
                 in
                 (case propagateExprInfo (ReductionOp rop) st of
                    Inl e \<Rightarrow> Inl e
                  | Inr st \<Rightarrow>
                      if rop_allreduce rop
                      then insertAtTopLevel (AllocateFusedReduction (GridReduction grid_reduction)) st
                      else Inr st))
      | _ \<Rightarrow> Inl NotATensorView)"

definition handleReductionOp :: "lower_ctx \<Rightarrow> reduction_op \<Rightarrow> lowering \<Rightarrow> error + lowering" where
  "handleReductionOp ctx rop st =
     (if \<not> isTV (rop_out rop) then Inl NotTvOp
      else
        case rop_out rop of
          TensorViewV out_tv \<Rightarrow>
            let out_domain = tv_domain out_tv;
                has_block_reduce = hasBlockReduction out_domain;
                has_grid_reduce = hasGridReduction out_domain;
                out = lowerDstIndex (rop_out rop) st
            in
            (case lowerSrcIndex (rop_in rop) (rop_out rop) st of
               Inl e \<Rightarrow> Inl e
             | Inr inp \<Rightarrow>
                 if has_grid_reduce then handleGridReduction ctx rop out inp st
                 else if has_block_reduce then handleBlockReduction rop out inp st
                 else propagateExprInfo (ReductionOp rop)
                        (pushBack (BinaryOp (rop_type rop) out out inp) st))
        | _ \<Rightarrow> Inl NotATensorView)"

subsection \<open>GroupedReductionOp\<close>

fun mapE :: "('a \<Rightarrow> error + 'b) \<Rightarrow> 'a list \<Rightarrow> error + 'b list" where
  "mapE f [] = Inr []"
| "mapE f (x # xs) =
     (case f x of
        Inl e \<Rightarrow> Inl e
      | Inr y \<Rightarrow> (case mapE f xs of Inl e \<Rightarrow> Inl e | Inr ys \<Rightarrow> Inr (y # ys)))"

text \<open>
  Modelled from the spec: \<open>ir_utils::getTvOutput\<close> (ir_utils.cpp is not part of the
  sources at hand) gives the tensor view of the first output that is a tensor.
\<close>

fun getTv :: "val \<Rightarrow> tensorview option" where
  "getTv (Scalar dt v) = None"
| "getTv (TensorViewV tv) = Some tv"
| "getTv (TensorIndexV ti) = Some (view ti)"

definition getTvOutput :: "val list \<Rightarrow> tensorview option" where
  "getTvOutput outs = (case find isTV outs of Some v \<Rightarrow> getTv v | None \<Rightarrow> None)"

definition handleGroupedBlockReduction ::
  "grouped_reduction_op \<Rightarrow> val list \<Rightarrow> val list \<Rightarrow> lowering \<Rightarrow> error + lowering" where
  "handleGroupedBlockReduction grouped_rop outputs inputs st =
     (if \<not> list_ex isTV (g_outputs grouped_rop) then Inl NotTvOp
      else
        let indexed_rop = \<lparr>g_types = g_types grouped_rop, g_inits = g_inits grouped_rop,
                             g_outputs = outputs, g_inputs = inputs,
                             g_allreduce = g_allreduce grouped_rop,
                             g_predicate = None, g_write_predicate = None\<rparr>;
            indexed_rop = (case g_predicate grouped_rop of
                             Some p \<Rightarrow> indexed_rop\<lparr>g_predicate := Some p\<rparr>
                           | None \<Rightarrow> indexed_rop);
            indexed_rop = (case g_write_predicate grouped_rop of
                             Some p \<Rightarrow> indexed_rop\<lparr>g_write_predicate := Some p\<rparr>
                           | None \<Rightarrow> indexed_rop)
        in propagateExprInfo (GroupedReductionOp grouped_rop)
             (pushBack (GroupedReductionOp indexed_rop) st))"

definition handleGroupedGridReduction ::
  "lower_ctx \<Rightarrow> grouped_reduction_op \<Rightarrow> val list \<Rightarrow> val list \<Rightarrow> lowering \<Rightarrow> error + lowering" where
  "handleGroupedGridReduction ctx grouped_rop outputs inputs st =
     (case getTvOutput (g_outputs grouped_rop) of
        None \<Rightarrow> Inl NotTvOp
      | Some out_tv \<Rightarrow>
          let out_domain = tv_domain out_tv in
          if \<not> hasGridReduction out_domain then Inl NoGridReduction
          else if list_ex serial_reduction_axis out_domain then Inl SerialAndGridReduction
          else
            let is_within_a_loop = list_ex (\<lambda>d. \<not> isTrivialIterDomain ctx d) out_domain in
            (case mapE (\<lambda>output.
                     case getGridCommWorkBufferSize ctx out_domain (for_loops st)
                            (if g_allreduce grouped_rop \<and> is_within_a_loop then 2 else 1) of
                       Inl e \<Rightarrow> Inl e
                     | Inr work_size \<Rightarrow>
                         Inr (allocGlobalBufferForGridComm work_size (val_dtype output) False))
                   outputs of
               Inl e \<Rightarrow> Inl e
             | Inr reduce_buffers \<Rightarrow>
                 let sync_buffer = allocGlobalBufferForGridComm
                        (getGridSyncBufferSize ctx out_domain (for_loops st)) DT_Int True;
                     thread_pred = getPredicatedParallelTypes ctx out_tv;
                     grid_reduction =
                       \<lparr>gg_types = g_types grouped_rop, gg_inits = g_inits grouped_rop,
                        gg_outputs = outputs, gg_inputs = inputs,
                        gg_reduction_buffers = reduce_buffers, gg_sync_buffer = sync_buffer,
                        gg_allreduce = g_allreduce grouped_rop,
                        gg_thread_predicate = [], gg_predicate = None,
                        gg_write_predicate = None\<rparr>;
                     grid_reduction = grid_reduction\<lparr>gg_thread_predicate := thread_pred\<rparr>;
                     grid_reduction = (case g_predicate grouped_rop of
                                         Some p \<Rightarrow> grid_reduction\<lparr>gg_predicate := Some p\<rparr>
                                       | None \<Rightarrow> grid_reduction);
                     grid_reduction = (case g_write_predicate grouped_rop of
                                         Some p \<Rightarrow> grid_reduction\<lparr>gg_write_predicate := Some p\<rparr>
                                       | None \<Rightarrow> grid_reduction);
                     st = fold (\<lambda>reduce_buffer. pushBack (Allocate reduce_buffer)) reduce_buffers st;
                     st = pushBack (Allocate sync_buffer) st;
                     st = pushBack (GroupedGridReduction grid_reduction) st
                 in
                 (case propagateExprInfo (GroupedReductionOp grouped_rop) st of
                    Inl e \<Rightarrow> Inl e
                  | Inr st \<Rightarrow>
                      if g_allreduce grouped_rop
                      then insertAtTopLevel
                             (AllocateFusedReduction (GroupedGridReduction grid_reduction)) st
                      else Inr st)))"

text \<open>
  The grouped operation holds one output and one input per reduction
  (\<open>numReductions\<close> of each, by its constructor); the loop over the reductions indexes
  them pairwise.
\<close>

definition handleGroupedReductionOp ::
  "lower_ctx \<Rightarrow> grouped_reduction_op \<Rightarrow> lowering \<Rightarrow> error + lowering" where
  "handleGroupedReductionOp ctx grouped_rop st =
     (if \<not> list_ex isTV (g_outputs grouped_rop) then Inl NotTvOp
      else
        case getTvOutput (g_outputs grouped_rop) of
          None \<Rightarrow> Inl NotTvOp
        | Some out_tv \<Rightarrow>
            let out_domain = tv_domain out_tv;
                has_block_reduce = hasBlockReduction out_domain;
                has_grid_reduce = hasGridReduction out_domain;
                indexed_outputs = map (\<lambda>output. lowerDstIndex output st) (g_outputs grouped_rop)
            in
            (case mapE (\<lambda>(inp, output). lowerSrcIndex inp output st)
                    (zip (g_inputs grouped_rop) (g_outputs grouped_rop)) of
               Inl e \<Rightarrow> Inl e
             | Inr indexed_inputs \<Rightarrow>
                 if has_grid_reduce
                 then handleGroupedGridReduction ctx grouped_rop indexed_outputs indexed_inputs st
                 else if has_block_reduce
                 then handleGroupedBlockReduction grouped_rop indexed_outputs indexed_inputs st
                 else Inr (fold (\<lambda>(ty, output, inp). pushBack (BinaryOp ty output output inp))
                             (zip (g_types grouped_rop) (zip indexed_outputs indexed_inputs)) st)))"

subsection \<open>WelfordOp\<close>

definition handleGridWelford :: "lower_ctx \<Rightarrow> welford_op \<Rightarrow> lowering \<Rightarrow> error + lowering" where
  "handleGridWelford ctx indexed_wop st =
     (case w_out_avg indexed_wop of
        TensorIndexV ti \<Rightarrow>
          let out_tv = view ti;
              out_domain = tv_domain out_tv;
              is_within_a_loop = list_ex (\<lambda>d. \<not> isTrivialIterDomain ctx d) out_domain;
              privatize_buffer = (\<not> w_allreduce indexed_wop)
          in
          (case getGridCommWorkBufferSize ctx out_domain
                  (if privatize_buffer then for_loops st else [])
                  (if w_allreduce indexed_wop \<and> is_within_a_loop then 2 else 1) of
             Inl e \<Rightarrow> Inl e
           | Inr work_buffer_size \<Rightarrow>
               let out_var_buffer = allocGlobalBufferForGridComm work_buffer_size
                      (val_dtype (w_out_var indexed_wop)) False;
                   out_avg_buffer = allocGlobalBufferForGridComm work_buffer_size
                      (val_dtype (w_out_avg indexed_wop)) False;
                   out_N_buffer = allocGlobalBufferForGridComm work_buffer_size
                      (val_dtype (w_out_N indexed_wop)) False;
                   sync_buffer = allocGlobalBufferForGridComm
                      (getGridSyncBufferSize ctx out_domain
                         (if privatize_buffer then for_loops st else []))
                      DT_Int True;
                   entrance_ind = (if privatize_buffer
                                   then getEntranceLinIndGridReduce (for_loops st)
                                   else zeroVal);
                   n_entrances = (if privatize_buffer
                                  then getEntranceCountGridReduce (for_loops st)
                                  else oneVal);
                   thread_pred = getPredicatedParallelTypes ctx out_tv;
                   grid_welford =
                     \<lparr>gw_welford_op = indexed_wop, gw_var_buffer = out_var_buffer,
                      gw_avg_buffer = out_avg_buffer, gw_N_buffer = out_N_buffer,
                      gw_sync_buffer = sync_buffer, gw_entrance_index = entrance_ind,
                      gw_entrances = n_entrances, gw_thread_predicate = [],
                      gw_predicate = None, gw_write_predicate = None\<rparr>;
                   grid_welford = grid_welford\<lparr>gw_thread_predicate := thread_pred\<rparr>;
                   block_reduce_separated =
                     (hasBlockReduction out_domain \<and> \<not> w_allreduce indexed_wop);
                   grid_welford =
                     (case w_predicate indexed_wop of
                        Some p \<Rightarrow>
                          if block_reduce_separated
                          then grid_welford\<lparr>gw_predicate := Some TruePredicate\<rparr>
                          else grid_welford\<lparr>gw_predicate := Some p\<rparr>
                      | None \<Rightarrow> grid_welford);
                   grid_welford =
                     (case w_write_predicate indexed_wop of
                        Some p \<Rightarrow> grid_welford\<lparr>gw_write_predicate := Some p\<rparr>
                      | None \<Rightarrow> grid_welford)
               in
               (case (if block_reduce_separated
                      then propagateExprInfo (WelfordOp indexed_wop)
                             (pushBack (WelfordOp indexed_wop) st)
                      else Inr st) of
                  Inl e \<Rightarrow> Inl e
                | Inr st \<Rightarrow>
                    let st = pushBack (Allocate out_var_buffer) st;
                        st = pushBack (Allocate out_avg_buffer) st;
                        st = pushBack (Allocate out_N_buffer) st;
                        st = pushBack (Allocate sync_buffer) st;
                        st = pushBack (GridWelford grid_welford) st
                    in
                    (case propagateExprInfo (WelfordOp indexed_wop) st of
                       Inl e \<Rightarrow> Inl e
                     | Inr st \<Rightarrow>
                         if w_allreduce indexed_wop
                         then insertAtTopLevel
                                (AllocateFusedReduction (GridWelford grid_welford)) st
                         else Inr st)))
      | _ \<Rightarrow> Inl NotATensorView)"

definition handleWelfordOp :: "lower_ctx \<Rightarrow> welford_op \<Rightarrow> lowering \<Rightarrow> error + lowering" where
  "handleWelfordOp ctx wop st =
     (if \<not> (isTV (w_out_avg wop) \<or> isTV (w_out_var wop) \<or> isTV (w_out_N wop)) then Inl NotTvOp
      else
        case w_out_avg wop of
          TensorViewV out_tv \<Rightarrow>
            let out_domain = tv_domain out_tv;
                has_block_reduce = hasBlockReduction out_domain;
                has_grid_reduce = hasGridReduction out_domain
            in
            if has_grid_reduce \<and> list_ex non_thread_reduction_axis out_domain
            then Inl SerialAndGridReduction
            else
              (case (case w_in_var wop of
                       Some v \<Rightarrow> (case lowerSrcIndex v (w_out_avg wop) st of
                                    Inl e \<Rightarrow> Inl e
                                  | Inr i \<Rightarrow> Inr (Some i))
                     | None \<Rightarrow> Inr None) of
                 Inl e \<Rightarrow> Inl e
               | Inr in_var \<Rightarrow>
                   (case lowerSrcIndex (w_in_avg wop) (w_out_avg wop) st of
                      Inl e \<Rightarrow> Inl e
                    | Inr in_avg \<Rightarrow>
                        (case (if \<not> isScalar (w_in_N wop)
                               then lowerSrcIndex (w_in_N wop) (w_out_N wop) st
                               else Inr (w_in_N wop)) of
                           Inl e \<Rightarrow> Inl e
                         | Inr in_N \<Rightarrow>
                             let out_avg = lowerDstIndex (w_out_avg wop) st;
                                 out_var = lowerDstIndex (w_out_var wop) st;
                                 out_N = lowerDstIndex (w_out_N wop) st;
                                 indexed_wop =
                                   \<lparr>w_out_avg = out_avg, w_out_var = out_var, w_out_N = out_N,
                                    w_init_avg = w_init_avg wop, w_init_var = w_init_var wop,
                                    w_init_N = w_init_N wop, w_in_avg = in_avg,
                                    w_in_var = in_var, w_in_N = in_N,
                                    w_allreduce = w_allreduce wop,
                                    w_predicate = None, w_write_predicate = None\<rparr>;
                                 indexed_wop =
                                   (case w_predicate wop of
                                      Some p \<Rightarrow> indexed_wop\<lparr>w_predicate := Some p\<rparr>
                                    | None \<Rightarrow> indexed_wop);
                                 indexed_wop =
                                   (case w_write_predicate wop of
                                      Some p \<Rightarrow> indexed_wop\<lparr>w_write_predicate := Some p\<rparr>
                                    | None \<Rightarrow> indexed_wop)
                             in
                             if \<not> has_block_reduce \<and> \<not> has_grid_reduce
                             then propagateExprInfo (WelfordOp wop)
                                    (pushBack (WelfordOp indexed_wop) st)
                             else if \<not> has_grid_reduce
                             then propagateExprInfo (WelfordOp wop)
                                    (pushBack (WelfordOp indexed_wop) st)
                             else handleGridWelford ctx indexed_wop st)))
        | _ \<Rightarrow> Inl NotATensorView)"

subsection \<open>BroadcastOp\<close>

definition handleBroadcastOp :: "lower_ctx \<Rightarrow> broadcast_op \<Rightarrow> lowering \<Rightarrow> error + lowering" where
  "handleBroadcastOp ctx bop st =
     (if \<not> isTV (b_out bop) then Inl NotTvOp
      else
        case b_out bop of
          TensorViewV out_tv \<Rightarrow>
            let out = lowerDstIndex (b_out bop) st in
            (case lowerSrcIndex (b_in bop) (b_out bop) st of
               Inl e \<Rightarrow> Inl e
             | Inr inp \<Rightarrow>
                 let indexed_expr = \<lparr>b_out = out, b_in = inp, b_flags = b_flags bop,
                                       b_predicate = None\<rparr>;
                     parallel_bitmap = getParallelBroadcastDomains ctx out_tv;
                     block_x = parallel_bitmap BIDx;
                     block_y = parallel_bitmap BIDy;
                     block_z = parallel_bitmap BIDz;
                     indexed_expr = (case b_predicate bop of
                                       Some p \<Rightarrow> indexed_expr\<lparr>b_predicate := Some p\<rparr>
                                     | None \<Rightarrow> indexed_expr);
                     grid_broadcast_needed = (block_x \<or> block_y \<or> block_z)
                 in
                 if \<not> grid_broadcast_needed
                 then propagateExprInfo (BroadcastOp bop) (pushBack (BroadcastOp indexed_expr) st)
                 else
                   let out_domain = tv_domain out_tv in
                   (case getGridCommWorkBufferSize ctx out_domain [] 1 of
                      Inl e \<Rightarrow> Inl e
                    | Inr work_size \<Rightarrow>
                        let broadcast_buffer =
                              allocGlobalBufferForGridComm work_size (val_dtype out) False;
                            sync_buffer = allocGlobalBufferForGridComm
                              (getGridSyncBufferSize ctx out_domain []) DT_Int True;
                            grid_broadcast =
                              \<lparr>gb_broadcast_op = indexed_expr,
                               gb_broadcast_buffer = broadcast_buffer,
                               gb_sync_buffer = sync_buffer, gb_predicate = None\<rparr>;
                            grid_broadcast = (case b_predicate bop of
                                                Some p \<Rightarrow> grid_broadcast\<lparr>gb_predicate := Some p\<rparr>
                                              | None \<Rightarrow> grid_broadcast);
                            st = pushBack (Allocate broadcast_buffer) st;
                            st = pushBack (Allocate sync_buffer) st;
                            st = pushBack (GridBroadcast grid_broadcast) st
                        in propagateExprInfo (BroadcastOp bop) st))
        | _ \<Rightarrow> Inl NotATensorView)"

section \<open>The dispatch over expressions\<close>

text \<open>
  \<open>OptOutConstDispatch::handle\<close> calls the handler of the expression's kind. The kinds
  that index lowering itself creates (the grid nodes and AllocateFusedReduction) have no
  handler in IndexLowering, and the opt-out dispatch leaves the state as it is for them.
\<close>

fun handle :: "lower_ctx \<Rightarrow> expr \<Rightarrow> lowering \<Rightarrow> error + lowering"
  and handle_exprs :: "lower_ctx \<Rightarrow> expr list \<Rightarrow> lowering \<Rightarrow> error + lowering" where
  "handle ctx (IfThenElse c thenBody elseBody) st =
     (let prev_scope = active_scope st;
          st = pushBack (IfThenElse c [] []) st;
          st = st\<lparr>active_scope := prev_scope @ [ThenBody]\<rparr>
      in case handle_exprs ctx thenBody st of
           Inl e \<Rightarrow> Inl e
         | Inr st \<Rightarrow>
             (case handle_exprs ctx elseBody (st\<lparr>active_scope := prev_scope @ [ElseBody]\<rparr>) of
                Inl e \<Rightarrow> Inl e
              | Inr st \<Rightarrow> Inr (st\<lparr>active_scope := prev_scope\<rparr>)))"
| "handle ctx (ForLoop for_loop body) st =
     (let prev_scope = active_scope st;
          st = pushBack (ForLoop for_loop []) st;
          st = st\<lparr>active_scope := prev_scope @ [ForBody]\<rparr>;
          st = st\<lparr>for_loops := for_loops st @ [for_loop]\<rparr>
      in case handle_exprs ctx body st of
           Inl e \<Rightarrow> Inl e
         | Inr st \<Rightarrow> Inr (st\<lparr>for_loops := butlast (for_loops st), active_scope := prev_scope\<rparr>))"
| "handle ctx (UnaryOp ty out inp) st = handleUnaryOp ty out inp st"
| "handle ctx (BinaryOp ty out lhs rhs) st = handleBinaryOp ty out lhs rhs st"
| "handle ctx (TernaryOp ty out in1 in2 in3) st = handleTernaryOp ty out in1 in2 in3 st"
| "handle ctx (ViewAsScalar out inp vector_id idx) st =
     handleViewAsScalar ctx out inp vector_id idx st"
| "handle ctx (ReductionOp rop) st = handleReductionOp ctx rop st"
| "handle ctx (GroupedReductionOp grouped_rop) st = handleGroupedReductionOp ctx grouped_rop st"
| "handle ctx (WelfordOp wop) st = handleWelfordOp ctx wop st"
| "handle ctx (MmaOp out inA inB init opts) st = handleMmaOp out inA inB init opts st"
| "handle ctx (BroadcastOp bop) st = handleBroadcastOp ctx bop st"
| "handle ctx (Allocate a) st = Inr (pushBack (Allocate a) st)"
| "handle ctx (BlockSync w) st = Inr (pushBack (BlockSync w) st)"
| "handle ctx (GridSync b) st = Inr (pushBack (GridSync b) st)"
| "handle ctx (GridReduction g) st = Inr st"
| "handle ctx (GroupedGridReduction g) st = Inr st"
| "handle ctx (GridWelford g) st = Inr st"
| "handle ctx (GridBroadcast g) st = Inr st"
| "handle ctx (AllocateFusedReduction g) st = Inr st"
| "handle_exprs ctx [] st = Inr st"
| "handle_exprs ctx (e # es) st =
     (case handle ctx e st of
        Inl er \<Rightarrow> Inl er
      | Inr st \<Rightarrow> handle_exprs ctx es st)"

definition generate :: "lower_ctx \<Rightarrow> expr list \<Rightarrow> lowering \<Rightarrow> error + lowering" where
  "generate ctx exprs st = handle_exprs ctx exprs st"

text \<open>
  \<open>IndexLowering::getIndexedExprs\<close>: a fresh lowering object runs \<open>generate\<close> on the
  incoming expressions and hands out its \<open>lowered_exprs_\<close>.
\<close>

definition getIndexedExprs :: "lower_ctx \<Rightarrow> expr list \<Rightarrow> error + expr list" where
  "getIndexedExprs ctx exprs =
     (case generate ctx exprs \<lparr>lowered_exprs = [], for_loops = [], active_scope = []\<rparr> of
        Inl e \<Rightarrow> Inl e
      | Inr st \<Rightarrow> Inr (lowered_exprs st))"

section \<open>Grouping of reductions\<close>

text \<open>
  Modelled from the spec: \<open>groupReductions\<close> (its definition is not part of the sources
  at hand, only its tests are). Grouping is valid only when all grouped reductions have
  identical transform history and shape; this is validated before grouping, and grouping
  reductions over differently-shaped or differently-transformed tensors raises. The
  shape of a tensor is the sequence of the extents of its root domain, its transform
  history the sequence of splits and merges applied to it. On success the reductions
  are replaced by one GroupedReductionOp over their outputs and inputs.
\<close>

definition tv_shape :: "tensorview \<Rightarrow> sval list" where
  "tv_shape tv = map id_extent (tv_root tv)"

definition same_shape_and_history :: "tensorview \<Rightarrow> tensorview \<Rightarrow> bool" where
  "same_shape_and_history a b = (tv_shape a = tv_shape b \<and> tv_transforms a = tv_transforms b)"

definition groupReductions :: "reduction_op list \<Rightarrow> error + grouped_reduction_op" where
  "groupReductions rops =
     (case mapE (\<lambda>r. case rop_out r of TensorViewV tv \<Rightarrow> Inr tv | _ \<Rightarrow> Inl NotATensorView) rops of
        Inl e \<Rightarrow> Inl e
      | Inr tvs \<Rightarrow>
          if (case tvs of [] \<Rightarrow> True | tv0 # rest \<Rightarrow> list_all (same_shape_and_history tv0) rest)
          then Inr \<lparr>g_types = map rop_type rops, g_inits = map rop_init rops,
                    g_outputs = map rop_out rops, g_inputs = map rop_in rops,
                    g_allreduce = list_ex rop_allreduce rops,
                    g_predicate = None, g_write_predicate = None\<rparr>
          else Inl GroupingMismatch)"

section \<open>The pointwise scheduler heuristic\<close>

text \<open>
  \<open>int64_t\<close> values are modelled as integers; signed overflow is undefined in C++ and
  outside the model. A division by zero and the use of an iterator outside its vector,
  undefined as well, are errors of the model.
\<close>

definition kThreadX :: int where
  "kThreadX = 128"

definition int64_max :: int where
  "int64_max = 9223372036854775807"

definition cdiv :: "int \<Rightarrow> int \<Rightarrow> error + int" where
  "cdiv a b = (if b = 0 then Inl DivisionByZero else Inr (a sdiv b))"

definition ceilDivE :: "int \<Rightarrow> int \<Rightarrow> error + int" where
  "ceilDivE a b = cdiv (a + b - 1) b"

fun foldE :: "('a \<Rightarrow> 'b \<Rightarrow> error + 'b) \<Rightarrow> 'a list \<Rightarrow> 'b \<Rightarrow> error + 'b" where
  "foldE f [] s = Inr s"
| "foldE f (x # xs) s = (case f x s of Inl e \<Rightarrow> Inl e | Inr s' \<Rightarrow> foldE f xs s')"

text \<open>
  \<open>std::max_element(first, last)\<close> on a vector, iterators being positions: the position of
  the first greatest element, the end of the range when the range is empty.
\<close>

definition max_element :: "int list \<Rightarrow> nat \<Rightarrow> nat \<Rightarrow> error + nat" where
  "max_element xs first lst =
     (if \<not> (first \<le> lst \<and> lst \<le> length xs) then Inl BadIterator
      else if first = lst then Inr lst
      else Inr (fold (\<lambda>i largest. if xs ! largest < xs ! i then i else largest)
                  [first + 1 ..< lst] first))"

definition deref :: "int list \<Rightarrow> nat \<Rightarrow> error + int" where
  "deref xs it = (if it < length xs then Inr (xs ! it) else Inl BadIterator)"

text \<open>The loops \<open>t = t * elem_counts[i] * (*max_dims)\<close> over a range of dimensions.\<close>

definition transfer_loop :: "int list \<Rightarrow> int list \<Rightarrow> nat \<Rightarrow> nat list \<Rightarrow> int \<Rightarrow> error + int" where
  "transfer_loop elem_counts mapping_count it idxs t =
     foldE (\<lambda>i t. case deref mapping_count it of
                     Inl e \<Rightarrow> Inl e
                   | Inr m \<Rightarrow> Inr (t * elem_counts ! i * m)) idxs t"

definition right_elems :: "int list \<Rightarrow> nat \<Rightarrow> int" where
  "right_elems elem_counts break_point_i =
     fold (\<lambda>right_i c. c * elem_counts ! right_i) [break_point_i ..< length elem_counts] 1"

definition cur_transfer :: "int list \<Rightarrow> int list \<Rightarrow> nat \<Rightarrow> error + int" where
  "cur_transfer elem_counts mapping_count break_point_i =
     (case max_element mapping_count 0 break_point_i of
        Inl e \<Rightarrow> Inl e
      | Inr left_max_dims \<Rightarrow>
          (case max_element mapping_count break_point_i (length mapping_count) of
             Inl e \<Rightarrow> Inl e
           | Inr right_max_dims \<Rightarrow>
               (case transfer_loop elem_counts mapping_count left_max_dims [0 ..< break_point_i] 1 of
                  Inl e \<Rightarrow> Inl e
                | Inr t \<Rightarrow>
                    transfer_loop elem_counts mapping_count right_max_dims
                      [break_point_i ..< length elem_counts] t)))"

record search_state =
  break_point :: int
  right_elem_count :: int
  bdimx :: int
  bdimy :: int
  gdimx :: int
  gdimy :: int
  min_total_transfer :: int

definition search_init :: search_state where
  "search_init = \<lparr>break_point = 0, right_elem_count = 0, bdimx = kThreadX, bdimy = 1,
                   gdimx = 1, gdimy = 1, min_total_transfer = int64_max\<rparr>"

text \<open>One round of the loop over the break points.\<close>

definition break_point_step ::
  "int list \<Rightarrow> int list \<Rightarrow> int \<Rightarrow> int \<Rightarrow> int \<Rightarrow> int \<Rightarrow> nat \<Rightarrow> search_state \<Rightarrow> error + search_state" where
  "break_point_step elem_counts mapping_count n_elems max_unroll_factor
       device_multiprocessor_count transfer_size_1d break_point_i st =
     (let cur_right_elem_count = right_elems elem_counts break_point_i in
      if cur_right_elem_count \<le> 1 then Inr st
      else
        let cur_left_elem_count = n_elems sdiv cur_right_elem_count in
        if cur_left_elem_count \<le> 1 then Inr st
        else
          (case cur_transfer elem_counts mapping_count break_point_i of
             Inl e \<Rightarrow> Inl e
           | Inr cur_transfer_size \<Rightarrow>
               if cur_transfer_size \<ge> min_total_transfer st \<or>
                  cur_transfer_size * 10 \<ge> transfer_size_1d * 9
               then Inr st
               else if cur_right_elem_count < max_unroll_factor then Inr st
               else
                 (case ceilDivE cur_right_elem_count max_unroll_factor of
                    Inl e \<Rightarrow> Inl e
                  | Inr q \<Rightarrow>
                      let bx = min q kThreadX in
                      (case (if cur_left_elem_count > device_multiprocessor_count
                             then cdiv kThreadX bx else Inr 1) of
                         Inl e \<Rightarrow> Inl e
                       | Inr by \<Rightarrow>
                           (case ceilDivE cur_left_elem_count by of
                              Inl e \<Rightarrow> Inl e
                            | Inr remainder_left \<Rightarrow>
                                (case ceilDivE cur_right_elem_count (by * bx * max_unroll_factor) of
                                   Inl e \<Rightarrow> Inl e
                                 | Inr remainder_right \<Rightarrow>
                                     Inr \<lparr>break_point = int break_point_i,
                                          right_elem_count = cur_right_elem_count,
                                          bdimx = bx, bdimy = by,
                                          gdimx = remainder_left,
                                          gdimy = (if remainder_right > 1 \<and> by \<le> 1
                                                   then remainder_right else 1),
                                          min_total_transfer = cur_transfer_size\<rparr>))))))"

definition break_point_search ::
  "int list \<Rightarrow> int list \<Rightarrow> int \<Rightarrow> int \<Rightarrow> int \<Rightarrow> error + search_state" where
  "break_point_search elem_counts mapping_count n_elems max_unroll_factor
       device_multiprocessor_count =
     (case max_element mapping_count 0 (length mapping_count) of
        Inl e \<Rightarrow> Inl e
      | Inr max_dims \<Rightarrow>
          (case transfer_loop elem_counts mapping_count max_dims [0 ..< length elem_counts] 1 of
             Inl e \<Rightarrow> Inl e
           | Inr transfer_size_1d \<Rightarrow>
               foldE (break_point_step elem_counts mapping_count n_elems max_unroll_factor
                        device_multiprocessor_count transfer_size_1d)
                 [0 ..< length elem_counts] search_init))"



record PointwiseParams =
  pw_break_point :: int
  pw_split_block :: bool
  pw_split_grid_y_dim :: bool
  pw_lparams :: "ParallelType \<Rightarrow> int option"

text \<open>
  Modelled from the spec: the default-constructed \<open>PointwiseParams\<close>
  (pointwise_heuristic.h is not part of the sources at hand) is the trivial default
  schedule: break point 0, no split of the block, no split of grid-y, nothing bound.
\<close>

definition default_params :: PointwiseParams where
  "default_params = \<lparr>pw_break_point = 0, pw_split_block = False,
                      pw_split_grid_y_dim = False, pw_lparams = (\<lambda>pt. None)\<rparr>"

text \<open>
  The values that the heuristic takes from its surroundings: the output tensors of the
  fusion, the evaluator of extents under the runtime inputs, the number of
  multiprocessors of the device, the unroll factor computed from the input types
  (lines 95 to 126 of the source, through \<open>lastPow2\<close> and \<open>dataTypeSize\<close>) and the mapping
  count of \<open>scheduler_utils::mappedInputsOutputs\<close>. The fields \<open>tag\<close>, \<open>vectorize\<close> and
  \<open>inner_factor\<close> of the parameters come from helpers that are not at hand and are left
  out.
\<close>

record heuristic_inputs =
  out_tvs :: "tensorview list"
  evaluate :: "sval \<Rightarrow> int option"
  device_multiprocessor_count :: int
  max_unroll_factor :: int
  mapping_count :: "int list"

definition n_root_dims :: "tensorview \<Rightarrow> int" where
  "n_root_dims tv =
     int (length (filter (\<lambda>d. \<not> (id_reduction d \<or> id_broadcast d)) (tv_root tv)))"

definition select_largest_out :: "tensorview list \<Rightarrow> tensorview option" where
  "select_largest_out tvs =
     fst (fold (\<lambda>out_tv (largest_out, max_dims).
                  if n_root_dims out_tv > max_dims then (Some out_tv, n_root_dims out_tv)
                  else (largest_out, max_dims))
            tvs (None, - 1))"

definition getPointwiseHeuristics :: "heuristic_inputs \<Rightarrow> error + PointwiseParams" where
  "getPointwiseHeuristics inp =
     (case select_largest_out (out_tvs inp) of
        None \<Rightarrow> Inl NoReferenceTensor
      | Some largest_out \<Rightarrow>
          if length (filter (\<lambda>d. \<not> id_reduction d)
                       (filter (\<lambda>d. \<not> id_broadcast d) (tv_domain largest_out))) = 0
          then Inr default_params
          else
            (case mapE (\<lambda>d. case evaluate inp (id_extent d) of
                               None \<Rightarrow> Inl SizeInferenceError
                             | Some v \<Rightarrow> Inr v) (tv_root largest_out) of
               Inl e \<Rightarrow> Inl e
             | Inr elem_counts \<Rightarrow>
                 let n_elems = fold (\<lambda>v n. n * v) elem_counts 1;
                     params = default_params
                 in
                 (case break_point_search elem_counts (mapping_count inp) n_elems
                         (max_unroll_factor inp) (device_multiprocessor_count inp) of
                    Inl e \<Rightarrow> Inl e
                  | Inr st \<Rightarrow>
                      if \<not> (right_elem_count st > 0 \<or> pw_break_point params = 0)
                      then Inl BreakPointWithoutElements
                      else if bdimy st > 1 \<and> gdimy st > 1 then Inl BlockAndGridY
                      else
                        let params = params\<lparr>pw_break_point := break_point st\<rparr>;
                            params = params\<lparr>pw_split_block := bdimy st > 1\<rparr>;
                            params = params\<lparr>pw_lparams := (pw_lparams params)(TIDx \<mapsto> bdimx st)\<rparr>;
                            params = (if pw_split_block params
                                      then params\<lparr>pw_lparams := (pw_lparams params)(TIDy \<mapsto> bdimy st)\<rparr>
                                      else params);
                            params = (if gdimy st > 65535
                                      then params\<lparr>pw_split_grid_y_dim := True\<rparr>
                                      else params)
                        in Inr params)))"

section \<open>Notions used in the statements\<close>

text \<open>A value that is a tensor view (not yet indexed).\<close>

fun is_view :: "val \<Rightarrow> bool" where
  "is_view (TensorViewV tv) = True"
| "is_view v = False"

text \<open>The product of the extents of the for-loops that are neither trivial nor bound to
  a thread or block, under a binding of the runtime scalars.\<close>

definition loop_extent_product :: "(string \<Rightarrow> int) \<Rightarrow> for_loop_hdr list \<Rightarrow> int" where
  "loop_extent_product env loops =
     prod_list (map (\<lambda>fl. eval env (id_extent (fl_iter_domain fl)))
                  (filter (\<lambda>fl. \<not> fl_trivial fl \<and> \<not> isThread (fl_iter_domain fl)) loops))"

text \<open>The binding of the runtime scalars that gives each of them the value \<open>n\<close>.\<close>

definition env_all :: "int \<Rightarrow> string \<Rightarrow> int" where
  "env_all n x = n"

text \<open>The grid reduction node that lowering builds for a ReductionOp.\<close>

definition expected_grid_reduction ::
  "lower_ctx \<Rightarrow> reduction_op \<Rightarrow> tensor_index \<Rightarrow> val \<Rightarrow> for_loop_hdr list \<Rightarrow> sval \<Rightarrow> grid_reduction" where
  "expected_grid_reduction ctx rop ti inp loops work_size =
     \<lparr>gr_type = rop_type rop, gr_init = rop_init rop, gr_out = TensorIndexV ti, gr_in = inp,
      gr_reduction_buffer = allocGlobalBufferForGridComm work_size (tv_dtype (view ti)) False,
      gr_sync_buffer = allocGlobalBufferForGridComm
         (getGridSyncBufferSize ctx (tv_domain (view ti)) (if rop_allreduce rop then [] else loops))
         DT_Int True,
      gr_entrance_index = (if rop_allreduce rop then zeroVal else getEntranceLinIndGridReduce loops),
      gr_entrances = (if rop_allreduce rop then oneVal else getEntranceCountGridReduce loops),
      gr_allreduce = rop_allreduce rop,
      gr_thread_predicate = getPredicatedParallelTypes ctx (view ti),
      gr_predicate = rop_predicate rop,
      gr_write_predicate = rop_write_predicate rop\<rparr>"

text \<open>The grouped grid reduction node that lowering builds for a GroupedReductionOp.\<close>

definition expected_grouped_grid_reduction ::
  "lower_ctx \<Rightarrow> grouped_reduction_op \<Rightarrow> tensorview \<Rightarrow> val list \<Rightarrow> val list \<Rightarrow>
   for_loop_hdr list \<Rightarrow> sval \<Rightarrow> grouped_grid_reduction" where
  "expected_grouped_grid_reduction ctx g tv outs ins loops work_size =
     \<lparr>gg_types = g_types g, gg_inits = g_inits g, gg_outputs = outs, gg_inputs = ins,
      gg_reduction_buffers =
        map (\<lambda>output. allocGlobalBufferForGridComm work_size (val_dtype output) False) outs,
      gg_sync_buffer = allocGlobalBufferForGridComm
         (getGridSyncBufferSize ctx (tv_domain tv) loops) DT_Int True,
      gg_allreduce = g_allreduce g,
      gg_thread_predicate = getPredicatedParallelTypes ctx tv,
      gg_predicate = g_predicate g,
      gg_write_predicate = g_write_predicate g\<rparr>"










text \<open>The state after one expression was appended to the active scope.\<close>

definition emitted :: "lowering \<Rightarrow> expr \<Rightarrow> lowering" where
  "emitted st e = st\<lparr>lowered_exprs := scope_push (active_scope st) e (lowered_exprs st)\<rparr>"

section \<open>Concrete schedules and fusions\<close>

text \<open>
  A reduction of a 1-D tensor of \<open>N\<close> elements scheduled as
  \<open>grid(ceil(N/128)) x block(128)\<close>: the tensor is split by 128, the outer axis is bound
  to BIDx and the inner one to TIDx, both being reduction axes of the output. The
  parallel dimension map gives each bound parallel type the extent of its axis.
\<close>

definition axis :: "sval \<Rightarrow> ParallelType \<Rightarrow> bool \<Rightarrow> iter_domain" where
  "axis e pt red = \<lparr>id_extent = e, id_ptype = pt, id_reduction = red, id_broadcast = False\<rparr>"

definition grid_extent :: sval where
  "grid_extent = CeilDiv (NamedScalar ''N'') (IntConst 128)"

definition grid_block_domain :: "iter_domain list" where
  "grid_block_domain = [axis grid_extent BIDx True, axis (IntConst 128) TIDx True]"

definition grid_block_ctx :: lower_ctx where
  "grid_block_ctx =
     \<lparr>parallelDimensionMap =
        (\<lambda>pt. if pt = BIDx then Some grid_extent
              else if pt = TIDx then Some (IntConst 128) else None),
      getPredicatedParallelTypes = (\<lambda>tv. []),
      getParallelBroadcastDomains = (\<lambda>tv pt. False),
      areMapped = (\<lambda>a b. a = b),
      isTrivialIterDomain = (\<lambda>d. id_reduction d \<or> id_broadcast d \<or> isThread d)\<rparr>"

definition tv_of :: "nat \<Rightarrow> iter_domain list \<Rightarrow> tensorview" where
  "tv_of n td = \<lparr>tv_name = n, tv_dtype = DT_Float, tv_root = [axis (NamedScalar ''N'') Serial False],
                 tv_transforms = [Split 0 (IntConst 128)], tv_domain = td\<rparr>"

definition in_tv :: tensorview where
  "in_tv = tv_of 0 [axis grid_extent BIDx False, axis (IntConst 128) TIDx False]"

text \<open>The same reduction with a further reduction axis that is not bound to a thread or
  block: of the constant extent one, and of a symbolic extent.\<close>

definition unit_serial_tv :: tensorview where
  "unit_serial_tv = tv_of 1 (grid_block_domain @ [axis (IntConst 1) Serial True])"

definition serial_tv :: tensorview where
  "serial_tv = tv_of 1 (grid_block_domain @ [axis (NamedScalar ''K'') Serial True])"

definition sum_of :: "tensorview \<Rightarrow> reduction_op" where
  "sum_of tv = \<lparr>rop_type = ''add'', rop_init = Scalar DT_Float (IntConst 0),
                rop_out = TensorViewV tv, rop_in = TensorViewV in_tv, rop_allreduce = False,
                rop_predicate = None, rop_write_predicate = None\<rparr>"

definition group_of :: "tensorview list \<Rightarrow> grouped_reduction_op" where
  "group_of tvs = \<lparr>g_types = map (\<lambda>tv. ''add'') tvs,
                   g_inits = map (\<lambda>tv. Scalar DT_Float (IntConst 0)) tvs,
                   g_outputs = map TensorViewV tvs, g_inputs = map (\<lambda>tv. TensorViewV in_tv) tvs,
                   g_allreduce = False, g_predicate = None, g_write_predicate = None\<rparr>"

definition welford_of :: "tensorview \<Rightarrow> predicate option \<Rightarrow> welford_op" where
  "welford_of tv p =
     \<lparr>w_out_avg = TensorViewV tv, w_out_var = TensorViewV (tv\<lparr>tv_name := tv_name tv + 1\<rparr>),
      w_out_N = TensorViewV (tv\<lparr>tv_name := tv_name tv + 2, tv_dtype := DT_Int\<rparr>),
      w_init_avg = Scalar DT_Float (IntConst 0), w_init_var = Scalar DT_Float (IntConst 0),
      w_init_N = Scalar DT_Int (IntConst 0), w_in_avg = TensorViewV in_tv, w_in_var = None,
      w_in_N = Scalar DT_Int (IntConst 1), w_allreduce = False,
      w_predicate = p, w_write_predicate = None\<rparr>"

text \<open>
  Two row sums of two different symbolic inputs, whose shapes are not known to agree
  (the fusion of the test FusionGroupedReduction4), and two row sums of the same input
  split by 128 and by 64 (FusionGroupedReduction5).
\<close>

definition row_sum_tv :: "nat \<Rightarrow> string \<Rightarrow> string \<Rightarrow> transform list \<Rightarrow> tensorview" where
  "row_sum_tv n s0 s1 ts =
     \<lparr>tv_name = n, tv_dtype = DT_Float,
      tv_root = [axis (NamedScalar s0) Serial False, axis (NamedScalar s1) Serial True],
      tv_transforms = ts,
      tv_domain = [axis (NamedScalar s0) Serial False, axis (NamedScalar s1) Serial True]\<rparr>"

definition test4_reductions :: "reduction_op list" where
  "test4_reductions = [sum_of (row_sum_tv 2 ''T0.size0'' ''T0.size1'' []),
                       sum_of (row_sum_tv 3 ''T1.size0'' ''T1.size1'' [])]"

definition test5_reductions :: "reduction_op list" where
  "test5_reductions = [sum_of (row_sum_tv 1 ''T0.size0'' ''T0.size1'' [Split 1 (IntConst 128)]),
                       sum_of (row_sum_tv 2 ''T0.size0'' ''T0.size1'' [Split 1 (IntConst 64)])]"






definition empty_lowering :: lowering where
  "empty_lowering = \<lparr>lowered_exprs = [], for_loops = [], active_scope = []\<rparr>"



text \<open>
  A pointwise fusion with one two-dimensional output of 70000 by 64 elements, whose inner
  dimension is broadcast in one of the inputs, on a device with 80 multiprocessors.
\<close>

definition pw_axis :: "string \<Rightarrow> iter_domain" where
  "pw_axis x = \<lparr>id_extent = NamedScalar x, id_ptype = Serial,
                id_reduction = False, id_broadcast = False\<rparr>"

definition pw_out :: tensorview where
  "pw_out = \<lparr>tv_name = 0, tv_dtype = DT_Float, tv_root = [pw_axis ''i0'', pw_axis ''i1''],
             tv_transforms = [], tv_domain = [pw_axis ''i0'', pw_axis ''i1'']\<rparr>"

definition pw_inputs :: heuristic_inputs where
  "pw_inputs = \<lparr>out_tvs = [pw_out],
                evaluate = (\<lambda>v. if v = NamedScalar ''i0'' then Some 70000
                                 else if v = NamedScalar ''i1'' then Some 64 else None),
                device_multiprocessor_count = 80, max_unroll_factor = 1,
                mapping_count = [1, 2]\<rparr>"


section \<open>Results that are errors or values\<close>

lemma mapE_error: "mapE f xs = Inl e \<Longrightarrow> \<exists>x\<in>set xs. f x = Inl e"
  by (induction xs) (auto split: sum.splits)

section \<open>Scopes and emission of lowered expressions\<close>

lemma scope_body_map:
  "scope_body s x = Some b \<Longrightarrow> scope_body s (scope_map s f x) = Some (f b)"
  by (cases "(s, x)" rule: scope_body.cases) auto

lemma scope_exprs_push:
  "scope_exprs p xs = Some b \<Longrightarrow> scope_exprs p (scope_push p e xs) = Some (b @ [e])"
proof (induction p arbitrary: xs)
  case Nil
  then show ?case by simp
next
  case (Cons s p)
  then show ?case
    by (auto simp: scope_body_map split: if_splits option.splits)
qed

lemma scope_exprs_nonempty: "scope_exprs (s # p) xs = Some b \<Longrightarrow> xs \<noteq> []"
  by (auto split: if_splits)

lemma scope_push_nonempty: "scope_push p e xs = [] \<Longrightarrow> xs = [] \<and> p \<noteq> []"
  by (cases p) (auto split: if_splits)

lemma active_exprs_pushBack:
  "active_exprs st = Some b \<Longrightarrow> active_exprs (pushBack e st) = Some (b @ [e])"
  by (simp add: active_exprs_def pushBack_def scope_exprs_push)

lemma pushBack_fields [simp]:
  "active_scope (pushBack e st) = active_scope st"
  "for_loops (pushBack e st) = for_loops st"
  by (simp_all add: pushBack_def)

lemma propagateExprInfo_ok:
  "active_exprs st = Some b \<Longrightarrow> b \<noteq> [] \<Longrightarrow> propagateExprInfo old st = Inr st"
  by (simp add: propagateExprInfo_def scope_back_def active_exprs_def)


lemma insertAtTopLevel_ok:
  assumes "active_exprs st = Some b" "b \<noteq> []"
  shows "\<exists>st'. insertAtTopLevel e st = Inr st' \<and>
           active_exprs st' = Some (if active_scope st = [] then butlast b @ [e, last b] else b) \<and>
           active_scope st' = active_scope st \<and> for_loops st' = for_loops st"
proof (cases "active_scope st")
  case Nil
  then show ?thesis using assms by (simp add: insertAtTopLevel_def active_exprs_def)
next
  case (Cons s p)
  then have "lowered_exprs st \<noteq> []" using assms(1) 
    by (auto simp: active_exprs_def split: if_splits)
  then show ?thesis using assms Cons
    by (simp add: insertAtTopLevel_def active_exprs_def)
qed

lemma lowerSrcIndex_tv_dst: "\<exists>v. lowerSrcIndex src (TensorViewV d) st = Inr v"
  by (cases src) (simp_all add: lowerSrcIndex_def)

lemma serial_grid_reduction_op:
  assumes "rop_out rop = TensorViewV tv" "hasGridReduction (tv_domain tv)"
    "list_ex serial_reduction_axis (tv_domain tv)"
  shows "handle ctx (ReductionOp rop) st = Inl SerialAndGridReduction"
proof -
  obtain v where "lowerSrcIndex (rop_in rop) (TensorViewV tv) st = Inr v"
    using lowerSrcIndex_tv_dst by blast
  then show ?thesis using assms
    by (simp add: handleReductionOp_def handleGridReduction_def lowerDstIndex_def Let_def)
qed

lemma mapE_ok:
  "(\<And>x. x \<in> set xs \<Longrightarrow> \<exists>y. f x = Inr y) \<Longrightarrow> \<exists>ys. mapE f xs = Inr ys \<and> length ys = length xs"
proof (induction xs)
  case Nil then show ?case by simp
next
  case (Cons x xs)
  from Cons.prems[of x] obtain y where "f x = Inr y" by auto
  moreover from Cons.IH Cons.prems obtain ys where "mapE f xs = Inr ys" "length ys = length xs" by auto
  ultimately show ?case by simp
qed

lemma is_viewD: "is_view v \<Longrightarrow> \<exists>tv. v = TensorViewV tv"
  by (cases v) simp_all

lemma grouped_inputs_ok:
  assumes "list_all is_view outs"
  shows "\<exists>ys. mapE (\<lambda>(inp, output). lowerSrcIndex inp output st) (zip ins outs) = Inr ys \<and>
              length ys = length (zip ins outs)"
proof (rule mapE_ok)
  fix x assume "x \<in> set (zip ins outs)"
  moreover obtain i o' where xe: "x = (i, o')" by (rule prod.exhaust)
  ultimately have x: "x = (i, o')" "o' \<in> set outs"
    using set_zip_rightD[of i o' ins outs] by simp_all
  with assms obtain tv where "o' = TensorViewV tv"
    by (auto simp: list_all_iff dest: is_viewD)
  with x show "\<exists>y. (case x of (inp, output) \<Rightarrow> lowerSrcIndex inp output st) = Inr y"
    using lowerSrcIndex_tv_dst by simp
qed

lemma getTvOutput_views:
  "list_all is_view outs \<Longrightarrow> outs \<noteq> [] \<Longrightarrow> \<exists>tv. hd outs = TensorViewV tv \<and> getTvOutput outs = Some tv \<and> list_ex isTV outs"
  by (cases outs) (auto simp: getTvOutput_def dest!: is_viewD)

lemma serial_grid_grouped:
  assumes "list_all is_view (g_outputs g)" "getTvOutput (g_outputs g) = Some tv"
    "hasGridReduction (tv_domain tv)" "list_ex serial_reduction_axis (tv_domain tv)"
  shows "handle ctx (GroupedReductionOp g) st = Inl SerialAndGridReduction"
proof -
  from grouped_inputs_ok[OF assms(1)] obtain ys where
    "mapE (\<lambda>(inp, output). lowerSrcIndex inp output st) (zip (g_inputs g) (g_outputs g)) = Inr ys"
    by blast
  moreover have "list_ex isTV (g_outputs g)" using assms(2)
    by (auto simp: getTvOutput_def list_ex_iff find_Some_iff split: option.splits)
  ultimately show ?thesis using assms
    by (simp add: handleGroupedReductionOp_def handleGroupedGridReduction_def Let_def)
qed

lemma serial_grid_welford:
  assumes "w_out_avg wop = TensorViewV tv" "hasGridReduction (tv_domain tv)"
    "list_ex non_thread_reduction_axis (tv_domain tv)"
  shows "handle ctx (WelfordOp wop) st = Inl SerialAndGridReduction"
  using assms by (simp add: handleWelfordOp_def Let_def)

lemma active_exprs_fold_pushBack:
  "active_exprs st = Some b \<Longrightarrow> active_exprs (fold pushBack es st) = Some (b @ es)"
  by (induction es arbitrary: st b) (auto simp: active_exprs_pushBack)

lemma fold_pushBack_fields [simp]:
  "active_scope (fold pushBack es st) = active_scope st"
  "for_loops (fold pushBack es st) = for_loops st"
  by (induction es arbitrary: st) simp_all

lemma emit_and_hoist:
  assumes "active_exprs st = Some b"
  shows "\<exists>st'. (case propagateExprInfo old (pushBack e (fold pushBack es st)) of
                  Inl er \<Rightarrow> Inl er
                | Inr s \<Rightarrow> if ar then insertAtTopLevel f s else Inr s) = Inr st' \<and>
          active_exprs st' =
            Some (b @ es @ (if ar \<and> active_scope st = [] then [f] else []) @ [e]) \<and>
          active_scope st' = active_scope st \<and> for_loops st' = for_loops st"
proof -
  let ?s = "pushBack e (fold pushBack es st)"
  have a: "active_exprs ?s = Some ((b @ es) @ [e])"
    by (rule active_exprs_pushBack[OF active_exprs_fold_pushBack[OF assms]])
  have p: "propagateExprInfo old ?s = Inr ?s"
    by (rule propagateExprInfo_ok[OF a]) simp
  show ?thesis
  proof (cases ar)
    case False
    then show ?thesis using a p by simp
  next
    case True
    from insertAtTopLevel_ok[OF a, of f] obtain st' where
      "insertAtTopLevel f ?s = Inr st'"
      "active_exprs st' = Some (if active_scope ?s = [] then butlast ((b @ es) @ [e]) @ [f, last ((b @ es) @ [e])] else (b @ es) @ [e])"
      "active_scope st' = active_scope ?s" "for_loops st' = for_loops ?s" by auto
    then show ?thesis using True p by (simp add: butlast_append)
  qed
qed

lemma work_size_ok:
  "1 \<le> f \<Longrightarrow> getGridCommWorkBufferSize ctx td loops f =
      Inr (fold loop_step loops (fold (work_pt_step ctx td) kParallelTypeThreads
             (if f = 1 then oneVal else IntConst f)))"
  by (simp add: getGridCommWorkBufferSize_def Let_def)

lemma handleGridReduction_emits:
  assumes act: "active_exprs st = Some b"
    and grid: "hasGridReduction (tv_domain (view ti))"
    and ns: "\<not> list_ex serial_reduction_axis (tv_domain (view ti))"
  shows "\<exists>st' ws gr.
      getGridCommWorkBufferSize ctx (tv_domain (view ti))
        (if rop_allreduce rop then [] else for_loops st)
        (if rop_allreduce rop \<and> list_ex (\<lambda>d. \<not> isTrivialIterDomain ctx d) (tv_domain (view ti))
         then 2 else 1) = Inr ws \<and>
      gr = expected_grid_reduction ctx rop ti inp (for_loops st) ws \<and>
      handleGridReduction ctx rop (TensorIndexV ti) inp st = Inr st' \<and>
      active_exprs st' =
        Some (b @ [Allocate (gr_reduction_buffer gr), Allocate (gr_sync_buffer gr)] @
              (if rop_allreduce rop \<and> active_scope st = []
               then [AllocateFusedReduction (GridReduction gr)] else []) @
              [GridReduction gr]) \<and>
      active_scope st' = active_scope st \<and> for_loops st' = for_loops st"
proof -
  let ?f = "if rop_allreduce rop \<and> list_ex (\<lambda>d. \<not> isTrivialIterDomain ctx d) (tv_domain (view ti))
         then 2 else 1 :: int"
  let ?loops = "if rop_allreduce rop then [] else for_loops st"
  have "1 \<le> ?f" by simp
  from work_size_ok[OF this] obtain ws where
    ws: "getGridCommWorkBufferSize ctx (tv_domain (view ti)) ?loops ?f = Inr ws" by blast
  let ?gr = "expected_grid_reduction ctx rop ti inp (for_loops st) ws"
  from emit_and_hoist[OF act, where old = "ReductionOp rop" and e = "GridReduction ?gr"
      and es = "[Allocate (gr_reduction_buffer ?gr), Allocate (gr_sync_buffer ?gr)]"
      and ar = "rop_allreduce rop" and f = "AllocateFusedReduction (GridReduction ?gr)"]
  obtain st' where st': "(case propagateExprInfo (ReductionOp rop)
          (pushBack (GridReduction ?gr)
            (fold pushBack [Allocate (gr_reduction_buffer ?gr), Allocate (gr_sync_buffer ?gr)] st)) of
       Inl er \<Rightarrow> Inl er
     | Inr s \<Rightarrow> if rop_allreduce rop
                then insertAtTopLevel (AllocateFusedReduction (GridReduction ?gr)) s
                else Inr s) = Inr st'"
    "active_exprs st' =
        Some (b @ [Allocate (gr_reduction_buffer ?gr), Allocate (gr_sync_buffer ?gr)] @
              (if rop_allreduce rop \<and> active_scope st = []
               then [AllocateFusedReduction (GridReduction ?gr)] else []) @
              [GridReduction ?gr])"
    "active_scope st' = active_scope st" "for_loops st' = for_loops st"
    by blast
  have "handleGridReduction ctx rop (TensorIndexV ti) inp st = Inr st'"
    using grid ns ws st'(1)
    by (cases "rop_predicate rop"; cases "rop_write_predicate rop"; cases "rop_allreduce rop";
        cases "list_ex (\<lambda>d. \<not> isTrivialIterDomain ctx d) (tv_domain (view ti))")
       (simp_all add: handleGridReduction_def Let_def expected_grid_reduction_def cong: if_cong sum.case_cong)
  with ws st' show ?thesis by blast
qed

lemma mapE_const_ok:
  "w = Inr ws \<Longrightarrow>
   mapE (\<lambda>x. case w of Inl e \<Rightarrow> Inl e | Inr s \<Rightarrow> Inr (h s x)) xs = Inr (map (h ws) xs)"
  by (induction xs) simp_all

lemma fold_pushBack_map:
  "fold (\<lambda>x. pushBack (k x)) xs st = fold pushBack (map k xs) st"
  by (induction xs arbitrary: st) simp_all

lemma handleGroupedGridReduction_emits:
  assumes act: "active_exprs st = Some b"
    and tv: "getTvOutput (g_outputs g) = Some tv"
    and grid: "hasGridReduction (tv_domain tv)"
    and ns: "\<not> list_ex serial_reduction_axis (tv_domain tv)"
  shows "\<exists>st' ws gg.
      getGridCommWorkBufferSize ctx (tv_domain tv) (for_loops st)
        (if g_allreduce g \<and> list_ex (\<lambda>d. \<not> isTrivialIterDomain ctx d) (tv_domain tv)
         then 2 else 1) = Inr ws \<and>
      gg = expected_grouped_grid_reduction ctx g tv outs ins (for_loops st) ws \<and>
      handleGroupedGridReduction ctx g outs ins st = Inr st' \<and>
      active_exprs st' =
        Some (b @ (map Allocate (gg_reduction_buffers gg) @ [Allocate (gg_sync_buffer gg)]) @
              (if g_allreduce g \<and> active_scope st = []
               then [AllocateFusedReduction (GroupedGridReduction gg)] else []) @
              [GroupedGridReduction gg]) \<and>
      active_scope st' = active_scope st \<and> for_loops st' = for_loops st"
proof -
  let ?f = "if g_allreduce g \<and> list_ex (\<lambda>d. \<not> isTrivialIterDomain ctx d) (tv_domain tv)
         then 2 else 1 :: int"
  have "1 \<le> ?f" by simp
  from work_size_ok[OF this] obtain ws where
    ws: "getGridCommWorkBufferSize ctx (tv_domain tv) (for_loops st) ?f = Inr ws" by blast
  let ?gg = "expected_grouped_grid_reduction ctx g tv outs ins (for_loops st) ws"
  have bufs: "mapE (\<lambda>output. case getGridCommWorkBufferSize ctx (tv_domain tv) (for_loops st) ?f of
                       Inl e \<Rightarrow> Inl e
                     | Inr work_size \<Rightarrow>
                         Inr (allocGlobalBufferForGridComm work_size (val_dtype output) False))
                   outs = Inr (gg_reduction_buffers ?gg)"
    using mapE_const_ok[OF ws, of "\<lambda>s x. allocGlobalBufferForGridComm s (val_dtype x) False" outs]
    by (simp add: expected_grouped_grid_reduction_def)
  from emit_and_hoist[OF act, where old = "GroupedReductionOp g" and e = "GroupedGridReduction ?gg"
      and es = "map Allocate (gg_reduction_buffers ?gg) @ [Allocate (gg_sync_buffer ?gg)]"
      and ar = "g_allreduce g" and f = "AllocateFusedReduction (GroupedGridReduction ?gg)"]
  obtain st' where st': "(case propagateExprInfo (GroupedReductionOp g)
          (pushBack (GroupedGridReduction ?gg)
            (fold pushBack (map Allocate (gg_reduction_buffers ?gg) @ [Allocate (gg_sync_buffer ?gg)]) st)) of
       Inl er \<Rightarrow> Inl er
     | Inr s \<Rightarrow> if g_allreduce g
                then insertAtTopLevel (AllocateFusedReduction (GroupedGridReduction ?gg)) s
                else Inr s) = Inr st'"
    "active_exprs st' =
        Some (b @ (map Allocate (gg_reduction_buffers ?gg) @ [Allocate (gg_sync_buffer ?gg)]) @
              (if g_allreduce g \<and> active_scope st = []
               then [AllocateFusedReduction (GroupedGridReduction ?gg)] else []) @
              [GroupedGridReduction ?gg])"
    "active_scope st' = active_scope st" "for_loops st' = for_loops st"
    by blast
  have "handleGroupedGridReduction ctx g outs ins st = Inr st'"
    using grid ns tv st'(1) bufs
    by (cases "g_predicate g"; cases "g_write_predicate g")
       (simp_all add: handleGroupedGridReduction_def Let_def fold_pushBack_map[where k = Allocate]
          expected_grouped_grid_reduction_def cong: if_cong sum.case_cong)
  with ws st' show ?thesis by blast
qed


lemma val_dtype_lowerDstIndex [simp]: "val_dtype (lowerDstIndex v st) = val_dtype v"
  by (cases v) (simp_all add: lowerDstIndex_def)

lemma handle_reduction_grid:
  assumes act: "active_exprs st = Some b"
    and out: "rop_out rop = TensorViewV tv"
    and grid: "hasGridReduction (tv_domain tv)"
    and ns: "\<not> list_ex serial_reduction_axis (tv_domain tv)"
  shows "\<exists>st' ws gr inp.
      lowerSrcIndex (rop_in rop) (rop_out rop) st = Inr inp \<and>
      getGridCommWorkBufferSize ctx (tv_domain tv)
        (if rop_allreduce rop then [] else for_loops st)
        (if rop_allreduce rop \<and> list_ex (\<lambda>d. \<not> isTrivialIterDomain ctx d) (tv_domain tv)
         then 2 else 1) = Inr ws \<and>
      gr = expected_grid_reduction ctx rop (TensorIndex tv None (for_loops st)) inp (for_loops st) ws \<and>
      handle ctx (ReductionOp rop) st = Inr st' \<and>
      active_exprs st' =
        Some (b @ [Allocate (gr_reduction_buffer gr), Allocate (gr_sync_buffer gr)] @
              (if rop_allreduce rop \<and> active_scope st = []
               then [AllocateFusedReduction (GridReduction gr)] else []) @
              [GridReduction gr]) \<and>
      active_scope st' = active_scope st \<and> for_loops st' = for_loops st"
proof -
  obtain inp where inp: "lowerSrcIndex (rop_in rop) (rop_out rop) st = Inr inp"
    using lowerSrcIndex_tv_dst out by metis
  let ?ti = "TensorIndex tv None (for_loops st)"
  have v: "view ?ti = tv" by simp
  from handleGridReduction_emits[OF act, of ?ti ctx rop inp] grid ns
  obtain st' ws gr where
    "getGridCommWorkBufferSize ctx (tv_domain tv)
        (if rop_allreduce rop then [] else for_loops st)
        (if rop_allreduce rop \<and> list_ex (\<lambda>d. \<not> isTrivialIterDomain ctx d) (tv_domain tv)
         then 2 else 1) = Inr ws"
    "gr = expected_grid_reduction ctx rop ?ti inp (for_loops st) ws"
    "handleGridReduction ctx rop (TensorIndexV ?ti) inp st = Inr st'"
    "active_exprs st' =
        Some (b @ [Allocate (gr_reduction_buffer gr), Allocate (gr_sync_buffer gr)] @
              (if rop_allreduce rop \<and> active_scope st = []
               then [AllocateFusedReduction (GridReduction gr)] else []) @
              [GridReduction gr])"
    "active_scope st' = active_scope st" "for_loops st' = for_loops st"
    unfolding v by blast
  moreover have "handle ctx (ReductionOp rop) st = handleGridReduction ctx rop (TensorIndexV ?ti) inp st"
    using out grid inp by (simp add: handleReductionOp_def lowerDstIndex_def Let_def)
  ultimately show ?thesis using inp by (intro exI[of _ st'] exI[of _ ws] exI[of _ gr] exI[of _ inp]) simp
qed

lemma handle_grouped_grid:
  assumes act: "active_exprs st = Some b"
    and views: "list_all is_view (g_outputs g)"
    and tv: "getTvOutput (g_outputs g) = Some tv"
    and grid: "hasGridReduction (tv_domain tv)"
    and ns: "\<not> list_ex serial_reduction_axis (tv_domain tv)"
  shows "\<exists>st' ws gg ins.
      mapE (\<lambda>(inp, output). lowerSrcIndex inp output st) (zip (g_inputs g) (g_outputs g)) = Inr ins \<and>
      getGridCommWorkBufferSize ctx (tv_domain tv) (for_loops st)
        (if g_allreduce g \<and> list_ex (\<lambda>d. \<not> isTrivialIterDomain ctx d) (tv_domain tv)
         then 2 else 1) = Inr ws \<and>
      gg = expected_grouped_grid_reduction ctx g tv
             (map (\<lambda>output. lowerDstIndex output st) (g_outputs g)) ins (for_loops st) ws \<and>
      handle ctx (GroupedReductionOp g) st = Inr st' \<and>
      active_exprs st' =
        Some (b @ (map Allocate (gg_reduction_buffers gg) @ [Allocate (gg_sync_buffer gg)]) @
              (if g_allreduce g \<and> active_scope st = []
               then [AllocateFusedReduction (GroupedGridReduction gg)] else []) @
              [GroupedGridReduction gg]) \<and>
      active_scope st' = active_scope st \<and> for_loops st' = for_loops st"
proof -
  from grouped_inputs_ok[OF views] obtain ins where
    ins: "mapE (\<lambda>(inp, output). lowerSrcIndex inp output st) (zip (g_inputs g) (g_outputs g)) = Inr ins"
    by blast
  have ex: "list_ex isTV (g_outputs g)" using tv
    by (auto simp: getTvOutput_def list_ex_iff find_Some_iff split: option.splits)
  let ?outs = "map (\<lambda>output. lowerDstIndex output st) (g_outputs g)"
  from handleGroupedGridReduction_emits[OF act tv grid ns, of ctx ?outs ins]
  obtain st' ws gg where
    "getGridCommWorkBufferSize ctx (tv_domain tv) (for_loops st)
        (if g_allreduce g \<and> list_ex (\<lambda>d. \<not> isTrivialIterDomain ctx d) (tv_domain tv)
         then 2 else 1) = Inr ws"
    "gg = expected_grouped_grid_reduction ctx g tv ?outs ins (for_loops st) ws"
    "handleGroupedGridReduction ctx g ?outs ins st = Inr st'"
    "active_exprs st' =
        Some (b @ (map Allocate (gg_reduction_buffers gg) @ [Allocate (gg_sync_buffer gg)]) @
              (if g_allreduce g \<and> active_scope st = []
               then [AllocateFusedReduction (GroupedGridReduction gg)] else []) @
              [GroupedGridReduction gg])"
    "active_scope st' = active_scope st" "for_loops st' = for_loops st"
    by blast
  moreover have "handle ctx (GroupedReductionOp g) st = handleGroupedGridReduction ctx g ?outs ins st"
    using ex tv grid ins by (simp add: handleGroupedReductionOp_def Let_def)
  ultimately show ?thesis using ins
    by (intro exI[of _ st'] exI[of _ ws] exI[of _ gg] exI[of _ ins]) simp
qed


section \<open>Sizes of the grid communication buffers\<close>

lemma eval_fold_loop_step:
  "eval env (fold loop_step loops b) = eval env b * loop_extent_product env loops"
  by (induction loops arbitrary: b) (auto simp: loop_step_def loop_extent_product_def mulExpr_def)

lemma loop_extent_product_skip:
  "\<forall>fl\<in>set loops. fl_trivial fl \<or> isThread (fl_iter_domain fl) \<Longrightarrow>
   loop_extent_product env loops = 1"
  by (induction loops) (auto simp: loop_extent_product_def)

lemma eval_sync_size:
  "eval env (getGridSyncBufferSize ctx td loops) =
     eval env (getGridSyncBufferSize ctx td []) * loop_extent_product env loops"
  by (simp add: getGridSyncBufferSize_def Let_def eval_fold_loop_step)

lemma eval_work_size:
  assumes "getGridCommWorkBufferSize ctx td loops f = Inr ws"
  shows "\<exists>ws0. getGridCommWorkBufferSize ctx td [] f = Inr ws0 \<and>
           eval env ws = eval env ws0 * loop_extent_product env loops"
  using assms
  by (auto simp: getGridCommWorkBufferSize_def Let_def eval_fold_loop_step split: if_splits)

lemma grid_block_work:
  "getGridCommWorkBufferSize grid_block_ctx grid_block_domain [] 1 = Inr (Mul (IntConst 1) grid_extent)"
  by code_simp

lemma grid_block_sync:
  "getGridSyncBufferSize grid_block_ctx grid_block_domain [] = IntConst 1"
  by code_simp

lemma ceilDiv_nonneg: "0 \<le> a \<Longrightarrow> 0 < b \<Longrightarrow> ceilDiv a b = (a + b - 1) div b"
  by (simp add: ceilDiv_def signed_divide_int_def sgn_if)

lemma ceilDiv_double: "0 \<le> n \<Longrightarrow> 128 dvd n \<Longrightarrow> ceilDiv (2 * n) 128 = 2 * ceilDiv n 128"
  by (auto simp: ceilDiv_nonneg elim!: dvdE)

lemma no_serial_grid_block: "\<not> list_ex serial_reduction_axis grid_block_domain"
  by code_simp

lemma has_grid_grid_block: "hasGridReduction grid_block_domain"
  by code_simp

text \<open>
  C2 (as amended). For the reduction of a 1-D tensor of \<open>N\<close> elements scheduled as
  \<open>grid(ceil(N/128)) x block(128)\<close>, with BIDx and TIDx both on reduction axes, lowered
  under no for-loop other than trivial or thread-bound ones, lowering allocates a work
  buffer of \<open>ceil(N/128)\<close> elements (the number of blocks) and a sync buffer of one
  element: BIDx is a reduction axis of the output, so it contributes to the work buffer
  but not to the sync buffer. Doubling \<open>N\<close> leaves the sync buffer at one element and
  doubles the work buffer when \<open>N\<close> is a multiple of 128.
\<close>

theorem grid_block_buffer_sizes:
  assumes act: "active_exprs st = Some b"
    and out: "rop_out rop = TensorViewV tv" and dom: "tv_domain tv = grid_block_domain"
    and loops: "\<forall>fl\<in>set (for_loops st). fl_trivial fl \<or> isThread (fl_iter_domain fl)"
    and n: "0 \<le> env ''N''"
  shows "\<exists>st' work sync gr.
      handle grid_block_ctx (ReductionOp rop) st = Inr st' \<and>
      active_exprs st' =
        Some (b @ [Allocate work, Allocate sync] @
              (if rop_allreduce rop \<and> active_scope st = []
               then [AllocateFusedReduction (GridReduction gr)] else []) @
              [GridReduction gr]) \<and>
      gr_reduction_buffer gr = work \<and> gr_sync_buffer gr = sync \<and>
      eval env (alloc_size work) = ceilDiv (env ''N'') 128 \<and>
      eval env (alloc_size sync) = 1 \<and>
      eval (env(''N'' := 2 * env ''N'')) (alloc_size sync) = 1 \<and>
      (128 dvd env ''N'' \<longrightarrow>
         eval (env(''N'' := 2 * env ''N'')) (alloc_size work) = 2 * eval env (alloc_size work))"
proof -
  let ?loops = "if rop_allreduce rop then [] else for_loops st"
  have nw: "\<not> list_ex (\<lambda>d. \<not> isTrivialIterDomain grid_block_ctx d) grid_block_domain"
    by code_simp
  have "\<exists>st' ws gr inp.
      lowerSrcIndex (rop_in rop) (rop_out rop) st = Inr inp \<and>
      getGridCommWorkBufferSize grid_block_ctx grid_block_domain ?loops 1 = Inr ws \<and>
      gr = expected_grid_reduction grid_block_ctx rop (TensorIndex tv None (for_loops st)) inp
             (for_loops st) ws \<and>
      handle grid_block_ctx (ReductionOp rop) st = Inr st' \<and>
      active_exprs st' =
        Some (b @ [Allocate (gr_reduction_buffer gr), Allocate (gr_sync_buffer gr)] @
              (if rop_allreduce rop \<and> active_scope st = []
               then [AllocateFusedReduction (GridReduction gr)] else []) @
              [GridReduction gr]) \<and>
      active_scope st' = active_scope st \<and> for_loops st' = for_loops st"
    using handle_reduction_grid[OF act out, of grid_block_ctx]
      no_serial_grid_block has_grid_grid_block nw
    unfolding dom by simp
  then obtain st' ws gr inp where
    ws: "getGridCommWorkBufferSize grid_block_ctx grid_block_domain ?loops 1 = Inr ws"
    and grd: "gr = expected_grid_reduction grid_block_ctx rop (TensorIndex tv None (for_loops st))
             inp (for_loops st) ws"
    and h: "handle grid_block_ctx (ReductionOp rop) st = Inr st'"
    and a: "active_exprs st' =
        Some (b @ [Allocate (gr_reduction_buffer gr), Allocate (gr_sync_buffer gr)] @
              (if rop_allreduce rop \<and> active_scope st = []
               then [AllocateFusedReduction (GridReduction gr)] else []) @
              [GridReduction gr])"
    by blast
  have gr: "gr_reduction_buffer gr = allocGlobalBufferForGridComm ws (tv_dtype tv) False"
      "gr_sync_buffer gr = allocGlobalBufferForGridComm
          (getGridSyncBufferSize grid_block_ctx grid_block_domain ?loops) DT_Int True"
    by (simp_all add: grd expected_grid_reduction_def dom)
  have "\<forall>fl\<in>set ?loops. fl_trivial fl \<or> isThread (fl_iter_domain fl)"
    using loops by simp
  then have one: "loop_extent_product e ?loops = 1" for e
    by (rule loop_extent_product_skip)
  from eval_work_size[OF ws] grid_block_work
  have w: "eval e ws = eval e (Mul (IntConst 1) grid_extent)" for e
    by (auto simp: one)
  have s: "eval e (getGridSyncBufferSize grid_block_ctx grid_block_domain ?loops) = 1" for e
    using eval_sync_size[of e grid_block_ctx grid_block_domain ?loops]
    by (simp add: one grid_block_sync)
  have "eval env (alloc_size (gr_reduction_buffer gr)) = ceilDiv (env ''N'') 128"
    by (simp add: gr allocGlobalBufferForGridComm_def w grid_extent_def)
  moreover have "eval env (alloc_size (gr_sync_buffer gr)) = 1"
    "eval (env(''N'' := 2 * env ''N'')) (alloc_size (gr_sync_buffer gr)) = 1"
    by (simp_all add: gr allocGlobalBufferForGridComm_def s)
  moreover have "128 dvd env ''N'' \<longrightarrow>
         eval (env(''N'' := 2 * env ''N'')) (alloc_size (gr_reduction_buffer gr)) =
           2 * eval env (alloc_size (gr_reduction_buffer gr))"
    using n by (simp add: gr allocGlobalBufferForGridComm_def w grid_extent_def ceilDiv_double)
  ultimately show ?thesis using h a by blast
qed

theorem grid_block_buffer_sizes_witness:
  "active_exprs empty_lowering = Some [] \<and>
   rop_out (sum_of (tv_of 1 grid_block_domain)) = TensorViewV (tv_of 1 grid_block_domain) \<and>
   tv_domain (tv_of 1 grid_block_domain) = grid_block_domain \<and>
   for_loops empty_lowering = [] \<and>
   0 \<le> env_all 256 ''N'' \<and>
   (\<exists>st' work sync gr.
      handle grid_block_ctx (ReductionOp (sum_of (tv_of 1 grid_block_domain))) empty_lowering = Inr st' \<and>
      active_exprs st' = Some [Allocate work, Allocate sync, GridReduction gr] \<and>
      eval (env_all 256) (alloc_size work) = ceilDiv (env_all 256 ''N'') 128 \<and>
      eval (env_all 256) (alloc_size sync) = 1 \<and>
      eval ((env_all 256)(''N'' := 2 * env_all 256 ''N'')) (alloc_size sync) = 1 \<and>
      (128 dvd env_all 256 ''N'' \<longrightarrow>
         eval ((env_all 256)(''N'' := 2 * env_all 256 ''N'')) (alloc_size work) =
           2 * eval (env_all 256) (alloc_size work)))"
proof -
  have h: "active_exprs empty_lowering = Some []"
    "rop_out (sum_of (tv_of 1 grid_block_domain)) = TensorViewV (tv_of 1 grid_block_domain)"
    "tv_domain (tv_of 1 grid_block_domain) = grid_block_domain"
    "\<forall>fl\<in>set (for_loops empty_lowering). fl_trivial fl \<or> isThread (fl_iter_domain fl)"
    "0 \<le> env_all 256 ''N''"
    by (simp_all add: active_exprs_def empty_lowering_def sum_of_def tv_of_def env_all_def)
  have e: "for_loops empty_lowering = []" by (simp add: empty_lowering_def)
  have nar: "\<not> rop_allreduce (sum_of (tv_of 1 grid_block_domain))" by (simp add: sum_of_def)
  from grid_block_buffer_sizes
         [where st = empty_lowering and b = "[]" and rop = "sum_of (tv_of 1 grid_block_domain)"
            and tv = "tv_of 1 grid_block_domain" and env = "env_all 256", OF h]
  obtain st' work sync gr where
    "handle grid_block_ctx (ReductionOp (sum_of (tv_of 1 grid_block_domain))) empty_lowering = Inr st'"
    "active_exprs st' = Some [Allocate work, Allocate sync, GridReduction gr]"
    "eval (env_all 256) (alloc_size work) = ceilDiv (env_all 256 ''N'') 128"
    "eval (env_all 256) (alloc_size sync) = 1"
    "eval ((env_all 256)(''N'' := 2 * env_all 256 ''N'')) (alloc_size sync) = 1"
    "128 dvd env_all 256 ''N'' \<longrightarrow>
         eval ((env_all 256)(''N'' := 2 * env_all 256 ''N'')) (alloc_size work) =
           2 * eval (env_all 256) (alloc_size work)"
    using nar by auto
  with h e show ?thesis by blast
qed

text \<open>
  C2 as stated fails: for \<open>N = 256\<close> the grid has two blocks, and the sync buffer that
  lowering allocates has one element.
\<close>

theorem grid_block_sync_size_counterexample:
  "ceilDiv 256 128 = 2 \<and>
   eval (env_all 256) (getGridSyncBufferSize grid_block_ctx grid_block_domain []) = 1 \<and>
   getIndexedExprs grid_block_ctx [ReductionOp (sum_of (tv_of 1 grid_block_domain))] =
     Inr [Allocate \<lparr>alloc_size = Mul (IntConst 1) grid_extent, alloc_dtype = DT_Float,
                    alloc_zero_init = False\<rparr>,
          Allocate \<lparr>alloc_size = IntConst 1, alloc_dtype = DT_Int, alloc_zero_init = True\<rparr>,
          GridReduction
            (expected_grid_reduction grid_block_ctx (sum_of (tv_of 1 grid_block_domain))
               (TensorIndex (tv_of 1 grid_block_domain) None [])
               (TensorIndexV (TensorIndex in_tv (Some (tv_of 1 grid_block_domain)) [])) []
               (Mul (IntConst 1) grid_extent))]"
  by code_simp

section \<open>Lowering of reductions over the grid\<close>

lemma handle_exprs_first_error:
  "handle ctx e st = Inl er \<Longrightarrow> handle_exprs ctx (e # es) st = Inl er"
  by simp

lemma getIndexedExprs_first_error:
  "handle ctx e empty_lowering = Inl er \<Longrightarrow> getIndexedExprs ctx (e # es) = Inl er"
  by (simp add: getIndexedExprs_def generate_def empty_lowering_def)

text \<open>
  C1 (as amended). When the output domain of a ReductionOp or GroupedReductionOp has a
  grid reduction and some reduction axis is neither bound to a thread or block nor of
  the constant extent one, lowering aborts with the error that directs to rfactor; for a
  WelfordOp any reduction axis that is not bound to a thread or block does. The result
  is the error alone: no grid reduction node and no lowered list is produced.
\<close>

theorem serial_grid_reduction_aborts:
  "(rop_out rop = TensorViewV tv \<and> hasGridReduction (tv_domain tv) \<and>
    list_ex serial_reduction_axis (tv_domain tv) \<longrightarrow>
      handle ctx (ReductionOp rop) st = Inl SerialAndGridReduction \<and>
      getIndexedExprs ctx (ReductionOp rop # es) = Inl SerialAndGridReduction) \<and>
   (list_all is_view (g_outputs g) \<and> getTvOutput (g_outputs g) = Some tv \<and>
    hasGridReduction (tv_domain tv) \<and> list_ex serial_reduction_axis (tv_domain tv) \<longrightarrow>
      handle ctx (GroupedReductionOp g) st = Inl SerialAndGridReduction \<and>
      getIndexedExprs ctx (GroupedReductionOp g # es) = Inl SerialAndGridReduction) \<and>
   (w_out_avg wop = TensorViewV tv \<and> hasGridReduction (tv_domain tv) \<and>
    list_ex non_thread_reduction_axis (tv_domain tv) \<longrightarrow>
      handle ctx (WelfordOp wop) st = Inl SerialAndGridReduction \<and>
      getIndexedExprs ctx (WelfordOp wop # es) = Inl SerialAndGridReduction)"
  using serial_grid_reduction_op[of rop tv ctx] serial_grid_grouped[of g tv ctx]
    serial_grid_welford[of wop tv ctx]
  by (auto intro!: getIndexedExprs_first_error)

theorem serial_grid_reduction_aborts_witness:
  "rop_out (sum_of serial_tv) = TensorViewV serial_tv \<and>
   list_all is_view (g_outputs (group_of [serial_tv, serial_tv])) \<and>
   getTvOutput (g_outputs (group_of [serial_tv, serial_tv])) = Some serial_tv \<and>
   w_out_avg (welford_of serial_tv None) = TensorViewV serial_tv \<and>
   hasGridReduction (tv_domain serial_tv) \<and>
   list_ex serial_reduction_axis (tv_domain serial_tv) \<and>
   list_ex non_thread_reduction_axis (tv_domain serial_tv) \<and>
   handle grid_block_ctx (ReductionOp (sum_of serial_tv)) empty_lowering = Inl SerialAndGridReduction \<and>
   getIndexedExprs grid_block_ctx (ReductionOp (sum_of serial_tv) # []) = Inl SerialAndGridReduction \<and>
   handle grid_block_ctx (GroupedReductionOp (group_of [serial_tv, serial_tv])) empty_lowering =
     Inl SerialAndGridReduction \<and>
   getIndexedExprs grid_block_ctx (GroupedReductionOp (group_of [serial_tv, serial_tv]) # []) =
     Inl SerialAndGridReduction \<and>
   handle grid_block_ctx (WelfordOp (welford_of serial_tv None)) empty_lowering =
     Inl SerialAndGridReduction \<and>
   getIndexedExprs grid_block_ctx (WelfordOp (welford_of serial_tv None) # []) =
     Inl SerialAndGridReduction"
proof -
  have h: "rop_out (sum_of serial_tv) = TensorViewV serial_tv"
    "list_all is_view (g_outputs (group_of [serial_tv, serial_tv]))"
    "getTvOutput (g_outputs (group_of [serial_tv, serial_tv])) = Some serial_tv"
    "w_out_avg (welford_of serial_tv None) = TensorViewV serial_tv"
    "hasGridReduction (tv_domain serial_tv)"
    "list_ex serial_reduction_axis (tv_domain serial_tv)"
    "list_ex non_thread_reduction_axis (tv_domain serial_tv)"
    by (simp add: sum_of_def, simp add: group_of_def, simp add: group_of_def getTvOutput_def,
        simp add: welford_of_def, code_simp, code_simp, code_simp)
  from serial_grid_reduction_aborts
         [of "sum_of serial_tv" serial_tv grid_block_ctx empty_lowering "[]"
             "group_of [serial_tv, serial_tv]" "welford_of serial_tv None"] h
  show ?thesis by blast
qed

text \<open>
  C1 as stated fails: the output domain below has a grid reduction and a serial
  reduction axis (of extent one), and lowering the ReductionOp returns the work buffer,
  the sync buffer and the GridReduction node instead of an error.
\<close>

theorem unit_extent_serial_axis_counterexample:
  "hasGridReduction (tv_domain unit_serial_tv) \<and>
   list_ex non_thread_reduction_axis (tv_domain unit_serial_tv) \<and>
   getIndexedExprs grid_block_ctx [ReductionOp (sum_of unit_serial_tv)] =
     Inr [Allocate \<lparr>alloc_size = Mul (IntConst 1) grid_extent, alloc_dtype = DT_Float,
                    alloc_zero_init = False\<rparr>,
          Allocate \<lparr>alloc_size = IntConst 1, alloc_dtype = DT_Int, alloc_zero_init = True\<rparr>,
          GridReduction
            (expected_grid_reduction grid_block_ctx (sum_of unit_serial_tv)
               (TensorIndex unit_serial_tv None [])
               (TensorIndexV (TensorIndex in_tv (Some unit_serial_tv) [])) []
               (Mul (IntConst 1) grid_extent))]"
  by code_simp

lemma no_serial_iff:
  "(\<not> list_ex serial_reduction_axis td) =
   (\<forall>d\<in>set td. non_thread_reduction_axis d \<longrightarrow> isOneInt (id_extent d))"
  by (auto simp: list_ex_iff serial_reduction_axis_def non_thread_reduction_axis_def)

text \<open>
  C9. In the grid lowering of a ReductionOp or GroupedReductionOp, reduction axes not
  bound to a thread or block are exempt from the error when their extent is the
  constant one: lowering succeeds and ends with the grid reduction node. In the grid
  lowering of a WelfordOp any such axis raises the error, whatever its extent.
\<close>

theorem unit_extent_exemption:
  "(active_exprs st = Some b \<and> rop_out rop = TensorViewV tv \<and>
    hasGridReduction (tv_domain tv) \<and>
    (\<forall>d\<in>set (tv_domain tv). non_thread_reduction_axis d \<longrightarrow> isOneInt (id_extent d)) \<longrightarrow>
      (\<exists>st' pre gr. handle ctx (ReductionOp rop) st = Inr st' \<and>
                    active_exprs st' = Some (pre @ [GridReduction gr]))) \<and>
   (active_exprs st = Some b \<and> list_all is_view (g_outputs g) \<and>
    getTvOutput (g_outputs g) = Some tv \<and> hasGridReduction (tv_domain tv) \<and>
    (\<forall>d\<in>set (tv_domain tv). non_thread_reduction_axis d \<longrightarrow> isOneInt (id_extent d)) \<longrightarrow>
      (\<exists>st' pre gg. handle ctx (GroupedReductionOp g) st = Inr st' \<and>
                    active_exprs st' = Some (pre @ [GroupedGridReduction gg]))) \<and>
   (w_out_avg wop = TensorViewV tv \<and> hasGridReduction (tv_domain tv) \<and>
    d \<in> set (tv_domain tv) \<and> non_thread_reduction_axis d \<longrightarrow>
      handle ctx (WelfordOp wop) st = Inl SerialAndGridReduction)"
proof (intro conjI impI)
  assume a: "active_exprs st = Some b \<and> rop_out rop = TensorViewV tv \<and>
    hasGridReduction (tv_domain tv) \<and>
    (\<forall>d\<in>set (tv_domain tv). non_thread_reduction_axis d \<longrightarrow> isOneInt (id_extent d))"
  then have ns: "\<not> list_ex serial_reduction_axis (tv_domain tv)" by (simp add: no_serial_iff)
  from a handle_reduction_grid[of st b rop tv ctx, OF _ _ _ ns]
  obtain st' gr where "handle ctx (ReductionOp rop) st = Inr st'"
    "active_exprs st' =
        Some (b @ [Allocate (gr_reduction_buffer gr), Allocate (gr_sync_buffer gr)] @
              (if rop_allreduce rop \<and> active_scope st = []
               then [AllocateFusedReduction (GridReduction gr)] else []) @
              [GridReduction gr])" by blast
  then show "\<exists>st' pre gr. handle ctx (ReductionOp rop) st = Inr st' \<and>
                    active_exprs st' = Some (pre @ [GridReduction gr])"
    by (metis append.assoc)
next
  assume a: "active_exprs st = Some b \<and> list_all is_view (g_outputs g) \<and>
    getTvOutput (g_outputs g) = Some tv \<and> hasGridReduction (tv_domain tv) \<and>
    (\<forall>d\<in>set (tv_domain tv). non_thread_reduction_axis d \<longrightarrow> isOneInt (id_extent d))"
  then have ns: "\<not> list_ex serial_reduction_axis (tv_domain tv)" by (simp add: no_serial_iff)
  from a handle_grouped_grid[of st b g tv ctx, OF _ _ _ _ ns]
  obtain st' gg where "handle ctx (GroupedReductionOp g) st = Inr st'"
    "active_exprs st' =
        Some (b @ (map Allocate (gg_reduction_buffers gg) @ [Allocate (gg_sync_buffer gg)]) @
              (if g_allreduce g \<and> active_scope st = []
               then [AllocateFusedReduction (GroupedGridReduction gg)] else []) @
              [GroupedGridReduction gg])" by blast
  then show "\<exists>st' pre gg. handle ctx (GroupedReductionOp g) st = Inr st' \<and>
                    active_exprs st' = Some (pre @ [GroupedGridReduction gg])"
    by (metis append.assoc)
next
  assume "w_out_avg wop = TensorViewV tv \<and> hasGridReduction (tv_domain tv) \<and>
    d \<in> set (tv_domain tv) \<and> non_thread_reduction_axis d"
  then show "handle ctx (WelfordOp wop) st = Inl SerialAndGridReduction"
    using serial_grid_welford[of wop tv ctx st] by (auto simp: list_ex_iff)
qed

theorem unit_extent_exemption_witness:
  "active_exprs empty_lowering = Some [] \<and>
   rop_out (sum_of unit_serial_tv) = TensorViewV unit_serial_tv \<and>
   list_all is_view (g_outputs (group_of [unit_serial_tv, unit_serial_tv])) \<and>
   getTvOutput (g_outputs (group_of [unit_serial_tv, unit_serial_tv])) = Some unit_serial_tv \<and>
   w_out_avg (welford_of unit_serial_tv None) = TensorViewV unit_serial_tv \<and>
   hasGridReduction (tv_domain unit_serial_tv) \<and>
   \<not> list_ex serial_reduction_axis (tv_domain unit_serial_tv) \<and>
   isOneInt (id_extent (axis (IntConst 1) Serial True)) \<and>
   axis (IntConst 1) Serial True \<in> set (tv_domain unit_serial_tv) \<and>
   non_thread_reduction_axis (axis (IntConst 1) Serial True) \<and>
   (\<exists>st' pre gr. handle grid_block_ctx (ReductionOp (sum_of unit_serial_tv)) empty_lowering = Inr st' \<and>
                    active_exprs st' = Some (pre @ [GridReduction gr])) \<and>
   (\<exists>st' pre gg. handle grid_block_ctx (GroupedReductionOp (group_of [unit_serial_tv, unit_serial_tv]))
                     empty_lowering = Inr st' \<and>
                    active_exprs st' = Some (pre @ [GroupedGridReduction gg])) \<and>
   handle grid_block_ctx (WelfordOp (welford_of unit_serial_tv None)) empty_lowering =
     Inl SerialAndGridReduction"
proof -
  have h: "active_exprs empty_lowering = Some []"
    "rop_out (sum_of unit_serial_tv) = TensorViewV unit_serial_tv"
    "list_all is_view (g_outputs (group_of [unit_serial_tv, unit_serial_tv]))"
    "getTvOutput (g_outputs (group_of [unit_serial_tv, unit_serial_tv])) = Some unit_serial_tv"
    "w_out_avg (welford_of unit_serial_tv None) = TensorViewV unit_serial_tv"
    "hasGridReduction (tv_domain unit_serial_tv)"
    by (simp add: active_exprs_def empty_lowering_def, simp add: sum_of_def,
        simp add: group_of_def, simp add: group_of_def getTvOutput_def,
        simp add: welford_of_def, code_simp)
  have u: "\<forall>d\<in>set (tv_domain unit_serial_tv). non_thread_reduction_axis d \<longrightarrow> isOneInt (id_extent d)"
    unfolding no_serial_iff[symmetric] by code_simp
  have ax: "axis (IntConst 1) Serial True \<in> set (tv_domain unit_serial_tv)"
    "non_thread_reduction_axis (axis (IntConst 1) Serial True)"
    by (simp add: unit_serial_tv_def tv_of_def, code_simp)
  have ns: "\<not> list_ex serial_reduction_axis (tv_domain unit_serial_tv)"
    "isOneInt (id_extent (axis (IntConst 1) Serial True))" by code_simp+
  from unit_extent_exemption
         [of empty_lowering "[]" "sum_of unit_serial_tv" unit_serial_tv grid_block_ctx
             "group_of [unit_serial_tv, unit_serial_tv]" "welford_of unit_serial_tv None"
             "axis (IntConst 1) Serial True"] h u ax ns
  show ?thesis by blast
qed



lemma tv_of_domain [simp]: "tv_domain (tv_of n td) = td"
  by (simp add: tv_of_def)











section \<open>Lowering without reductions mirrors the source\<close>











lemma emitted_fields [simp]:
  "for_loops (emitted st e) = for_loops st"
  "active_scope (emitted st e) = active_scope st"
  "lowered_exprs (emitted st e) = scope_push (active_scope st) e (lowered_exprs st)"
  by (simp_all add: emitted_def)







section \<open>Grouping of reductions\<close>

lemma mapE_result:
  "mapE f xs = Inr ys \<Longrightarrow> length ys = length xs \<and> (\<forall>i<length xs. f (xs ! i) = Inr (ys ! i))"
proof (induction xs arbitrary: ys)
  case Nil then show ?case by simp
next
  case (Cons x xs)
  then show ?case by (auto split: sum.splits simp: nth_Cons split: nat.splits)
qed

lemma same_shape_and_history_sym_trans:
  "same_shape_and_history t a \<Longrightarrow> same_shape_and_history t b \<Longrightarrow> same_shape_and_history a b"
  by (simp add: same_shape_and_history_def)

lemma same_shape_and_history_refl: "same_shape_and_history a a"
  by (simp add: same_shape_and_history_def)

lemma grouping_views:
  assumes "mapE (\<lambda>r. case rop_out r of TensorViewV tv \<Rightarrow> Inr tv | _ \<Rightarrow> Inl NotATensorView) rops = Inr tvs"
    and "r \<in> set rops" and "rop_out r = TensorViewV a"
  shows "a \<in> set tvs"
proof -
  from assms(2) obtain i where i: "i < length rops" "rops ! i = r" by (auto simp: in_set_conv_nth)
  from mapE_result[OF assms(1)] i assms(3) have "length tvs = length rops" "tvs ! i = a" by auto
  with i show ?thesis by (auto simp: in_set_conv_nth)
qed

text \<open>
  C4. Grouping reductions of which two have output tensors of different shapes, or of
  different split/merge histories, raises an error: \<open>groupReductions\<close> returns no grouped
  operation, so nothing is handed to lowering.
\<close>

theorem group_mismatch_raises:
  assumes "r1 \<in> set rops" and "r2 \<in> set rops"
    and "rop_out r1 = TensorViewV a" and "rop_out r2 = TensorViewV b"
    and "tv_shape a \<noteq> tv_shape b \<or> tv_transforms a \<noteq> tv_transforms b"
  shows "groupReductions rops = Inl GroupingMismatch \<or> groupReductions rops = Inl NotATensorView"
proof (cases "mapE (\<lambda>r. case rop_out r of TensorViewV tv \<Rightarrow> Inr tv | _ \<Rightarrow> Inl NotATensorView) rops")
  case (Inl e)
  from mapE_error[OF Inl] obtain r :: reduction_op where
    "(case rop_out r of TensorViewV tv \<Rightarrow> Inr tv | _ \<Rightarrow> Inl NotATensorView) = Inl e" by blast
  then have "e = NotATensorView" by (cases "rop_out r") simp_all
  with Inl show ?thesis by (simp add: groupReductions_def)
next
  case (Inr tvs)
  from grouping_views[OF Inr assms(1,3)] grouping_views[OF Inr assms(2,4)]
  have ab: "a \<in> set tvs" "b \<in> set tvs" .
  have "\<not> (case tvs of [] \<Rightarrow> True | tv0 # rest \<Rightarrow> list_all (same_shape_and_history tv0) rest)"
  proof (cases tvs)
    case Nil with ab show ?thesis by simp
  next
    case (Cons tv0 rest)
    have "\<not> list_all (same_shape_and_history tv0) rest"
    proof
      assume "list_all (same_shape_and_history tv0) rest"
      then have "\<forall>t\<in>set tvs. same_shape_and_history tv0 t"
        using Cons by (auto simp: list_all_iff same_shape_and_history_refl)
      with ab have "same_shape_and_history a b"
        by (blast intro: same_shape_and_history_sym_trans)
      with assms(5) show False by (simp add: same_shape_and_history_def)
    qed
    with Cons show ?thesis by simp
  qed
  with Inr show ?thesis by (simp add: groupReductions_def)
qed

theorem group_mismatch_raises_witness:
  "groupReductions test4_reductions = Inl GroupingMismatch \<and>
   groupReductions test5_reductions = Inl GroupingMismatch"
proof -
  have "groupReductions test4_reductions = Inl GroupingMismatch \<or>
        groupReductions test4_reductions = Inl NotATensorView"
    by (rule group_mismatch_raises
          [of "sum_of (row_sum_tv 2 ''T0.size0'' ''T0.size1'' [])" test4_reductions
              "sum_of (row_sum_tv 3 ''T1.size0'' ''T1.size1'' [])"
              "row_sum_tv 2 ''T0.size0'' ''T0.size1'' []" "row_sum_tv 3 ''T1.size0'' ''T1.size1'' []"])
       (simp_all add: test4_reductions_def sum_of_def tv_shape_def row_sum_tv_def axis_def)
  moreover have "groupReductions test4_reductions \<noteq> Inl NotATensorView" by code_simp
  moreover have "groupReductions test5_reductions = Inl GroupingMismatch \<or>
        groupReductions test5_reductions = Inl NotATensorView"
    by (rule group_mismatch_raises
          [of "sum_of (row_sum_tv 1 ''T0.size0'' ''T0.size1'' [Split 1 (IntConst 128)])" test5_reductions
              "sum_of (row_sum_tv 2 ''T0.size0'' ''T0.size1'' [Split 1 (IntConst 64)])"
              "row_sum_tv 1 ''T0.size0'' ''T0.size1'' [Split 1 (IntConst 128)]"
              "row_sum_tv 2 ''T0.size0'' ''T0.size1'' [Split 1 (IntConst 64)]"])
       (simp_all add: test5_reductions_def sum_of_def tv_shape_def row_sum_tv_def axis_def)
  moreover have "groupReductions test5_reductions \<noteq> Inl NotATensorView" by code_simp
  ultimately show ?thesis by blast
qed

section \<open>Properties of the pointwise heuristic\<close>


lemma foldE_invariant:
  assumes "foldE f xs s = Inr s'" and "P s"
    and "\<And>x a b. x \<in> set xs \<Longrightarrow> P a \<Longrightarrow> f x a = Inr b \<Longrightarrow> P b"
  shows "P s'"
  using assms
proof (induction xs arbitrary: s)
  case Nil
  then show ?case by simp
next
  case (Cons x xs)
  from Cons.prems(1) obtain m where fx: "f x s = Inr m" and rest: "foldE f xs m = Inr s'"
    by (auto split: sum.splits)
  have pm: "P m" using Cons.prems(3)[of x s m] Cons.prems(2) fx by simp
  show ?case
  proof (rule Cons.IH[OF rest pm])
    fix y a b assume "y \<in> set xs" "P a" "f y a = Inr b"
    then show "P b" using Cons.prems(3)[of y a b] by simp
  qed
qed

lemma foldE_error: "foldE f xs s = Inl e \<Longrightarrow> \<exists>x\<in>set xs. \<exists>a. f x a = Inl e"
  by (induction xs arbitrary: s) (auto split: sum.splits)

lemma cdiv_error: "cdiv a b = Inl e \<Longrightarrow> e = DivisionByZero"
  by (auto simp: cdiv_def split: if_splits)

lemma max_element_error: "max_element xs a b = Inl e \<Longrightarrow> e = BadIterator"
  by (auto simp: max_element_def split: if_splits)

lemma transfer_loop_error: "transfer_loop ec mc it idxs t = Inl e \<Longrightarrow> e = BadIterator"
  unfolding transfer_loop_def
  by (drule foldE_error) (auto simp: deref_def split: if_splits sum.splits)

lemma cur_transfer_error: "cur_transfer ec mc i = Inl e \<Longrightarrow> e = BadIterator"
  by (auto simp: cur_transfer_def split: sum.splits dest: max_element_error transfer_loop_error)

lemma break_point_step_error:
  "break_point_step ec mc n muf sm t1d i st = Inl e \<Longrightarrow> e = BadIterator \<or> e = DivisionByZero"
  by (auto simp: break_point_step_def Let_def ceilDivE_def split: if_splits sum.splits
      dest: cur_transfer_error cdiv_error)

lemma break_point_search_error:
  "break_point_search ec mc n muf sm = Inl e \<Longrightarrow> e = BadIterator \<or> e = DivisionByZero"
  by (auto simp: break_point_search_def split: sum.splits
      dest: max_element_error transfer_loop_error break_point_step_error dest!: foldE_error)














lemma break_point_step_exclusive:
  assumes "break_point_step ec mc n muf sm t1d i st = Inr st'"
    and "\<not> (bdimy st > 1 \<and> gdimy st > 1)"
  shows "\<not> (bdimy st' > 1 \<and> gdimy st' > 1)"
  using assms
  by (auto simp: break_point_step_def Let_def split: if_splits sum.splits)

lemma break_point_search_exclusive:
  assumes "break_point_search ec mc n muf sm = Inr st"
  shows "\<not> (bdimy st > 1 \<and> gdimy st > 1)"
proof -
  from assms obtain t1d where
    f: "foldE (break_point_step ec mc n muf sm t1d) [0 ..< length ec] search_init = Inr st"
    by (auto simp: break_point_search_def split: sum.splits)
  show ?thesis
    by (rule foldE_invariant[OF f]) (auto simp: search_init_def dest: break_point_step_exclusive)
qed

text \<open>
  C8. Whatever the inputs, the break-point search never ends with both \<open>bdimy > 1\<close> and
  \<open>gdimy > 1\<close>, so the assertion of the heuristic that excludes this never fails; and in
  every parameter set that the heuristic returns, \<open>split_block\<close> and the split of grid-y
  are not both set.
\<close>

theorem pointwise_block_grid_exclusive:
  "(break_point_search ec mc n muf sm = Inr st \<longrightarrow> \<not> (bdimy st > 1 \<and> gdimy st > 1)) \<and>
   getPointwiseHeuristics inp \<noteq> Inl BlockAndGridY \<and>
   (getPointwiseHeuristics inp = Inr p \<longrightarrow> \<not> (pw_split_block p \<and> pw_split_grid_y_dim p))"
proof (intro conjI impI)
  assume "break_point_search ec mc n muf sm = Inr st"
  then show "\<not> (bdimy st > 1 \<and> gdimy st > 1)" by (rule break_point_search_exclusive)
next
  show "getPointwiseHeuristics inp \<noteq> Inl BlockAndGridY"
    by (auto simp: getPointwiseHeuristics_def Let_def split: option.splits sum.splits if_splits
        dest: break_point_search_exclusive break_point_search_error dest!: mapE_error)
next
  assume "getPointwiseHeuristics inp = Inr p"
  then show "\<not> (pw_split_block p \<and> pw_split_grid_y_dim p)"
    by (auto simp: getPointwiseHeuristics_def Let_def default_params_def
        split: option.splits sum.splits if_splits dest: break_point_search_exclusive)
qed

lemma pw_search_example:
  "break_point_search [70000, 64] [1, 2] (70000 * 64) 1 80 =
     Inr \<lparr>break_point = 1, right_elem_count = 64, bdimx = 64, bdimy = 2, gdimx = 35000,
          gdimy = 1, min_total_transfer = 8960000\<rparr>"
  by code_simp

lemma pw_heuristics_example:
  "getPointwiseHeuristics pw_inputs =
     Inr \<lparr>pw_break_point = 1, pw_split_block = True, pw_split_grid_y_dim = False,
          pw_lparams = ((\<lambda>pt. None)(TIDx \<mapsto> 64))(TIDy \<mapsto> 2)\<rparr>"
proof -
  have sel: "select_largest_out [pw_out] = Some pw_out"
    by (simp add: select_largest_out_def n_root_dims_def pw_out_def pw_axis_def)
  show ?thesis
    using pw_search_example
    by (simp add: getPointwiseHeuristics_def pw_inputs_def sel Let_def default_params_def)
       (simp add: pw_out_def pw_axis_def default_params_def)
qed

theorem pointwise_block_grid_exclusive_witness:
  "break_point_search [70000, 64] [1, 2] (70000 * 64) 1 80 =
     Inr \<lparr>break_point = 1, right_elem_count = 64, bdimx = 64, bdimy = 2, gdimx = 35000,
          gdimy = 1, min_total_transfer = 8960000\<rparr> \<and>
   \<not> (bdimy \<lparr>break_point = 1, right_elem_count = 64, bdimx = 64, bdimy = 2, gdimx = 35000,
          gdimy = 1, min_total_transfer = 8960000\<rparr> > 1 \<and>
      gdimy \<lparr>break_point = 1, right_elem_count = 64, bdimx = 64, bdimy = 2, gdimx = 35000,
          gdimy = 1, min_total_transfer = 8960000\<rparr> > 1) \<and>
   getPointwiseHeuristics pw_inputs =
     Inr \<lparr>pw_break_point = 1, pw_split_block = True, pw_split_grid_y_dim = False,
          pw_lparams = ((\<lambda>pt. None)(TIDx \<mapsto> 64))(TIDy \<mapsto> 2)\<rparr> \<and>
   \<not> (pw_split_block \<lparr>pw_break_point = 1, pw_split_block = True, pw_split_grid_y_dim = False,
          pw_lparams = ((\<lambda>pt. None)(TIDx \<mapsto> 64))(TIDy \<mapsto> 2)\<rparr> \<and>
      pw_split_grid_y_dim \<lparr>pw_break_point = 1, pw_split_block = True,
          pw_split_grid_y_dim = False,
          pw_lparams = ((\<lambda>pt. None)(TIDx \<mapsto> 64))(TIDy \<mapsto> 2)\<rparr>)"
  using pointwise_block_grid_exclusive
          [of "[70000, 64]" "[1, 2]" "70000 * 64" 1 80
              "\<lparr>break_point = 1, right_elem_count = 64, bdimx = 64, bdimy = 2, gdimx = 35000,
                gdimy = 1, min_total_transfer = 8960000\<rparr>"
              pw_inputs
              "\<lparr>pw_break_point = 1, pw_split_block = True, pw_split_grid_y_dim = False,
                pw_lparams = ((\<lambda>pt. None)(TIDx \<mapsto> 64))(TIDy \<mapsto> 2)\<rparr>"]
        pw_search_example pw_heuristics_example
  by simp




end
